theory Spec2Isabelle
  imports Main "HOL-Library.Word"
begin

unbundle bit_operations_syntax

section \<open>The abstracted account controller (ARC-58)\<close>

text \<open>
  A shallow embedding of the \<open>AbstractedAccount\<close> contract. Every public method is a
  function from the call's environment and the state before the call to either an error or
  the state after the call. A failed assertion, a failed \<open>verifyTxn\<close>, a box operation the
  AVM refuses, a \<open>uint64\<close> subtraction below zero, the address of an application that does
  not exist and a rejected inner transaction are all values of \<open>error\<close>: the AVM stops the
  program there and discards its writes. What the ledger asks of the group besides (fees,
  minimum balances, references to the boxes and applications a call touches, the opcode
  budget) is outside the model: a call is taken to have them.
\<close>

subsection \<open>Data\<close>

type_synonym Address = "256 word"
type_synonym AppID = "64 word"
type_synonym uint64 = "64 word"
type_synonym uint8 = "8 word"
type_synonym bytes = "uint8 list"

record PluginsKey =
  application :: AppID
  allowedCaller :: Address

record PluginInfo =
  lastValidRound :: uint64
  cooldown :: uint64
  lastCalled :: uint64
  adminPrivileges :: uint8

datatype TransactionType =
  Payment | KeyRegistration | AssetConfig | AssetTransfer | AssetFreeze | ApplicationCall

text \<open>The fields of a transaction of the group that the contract reads.\<close>

record Txn =
  sender :: Address
  rekeyTo :: Address
  typeEnum :: TransactionType
  applicationID :: AppID
  applicationArgs :: "bytes list"

text \<open>
  What a call sees of its surroundings. The group is kept as the transactions before the
  current one, the current one (\<open>this.txn\<close>) and those after it, so that
  \<open>this.txn.groupIndex\<close> always points into \<open>this.txnGroup\<close>.
  \<open>globals_currentApplicationAddress\<close> is \<open>this.app.address\<close>. \<open>appAddress\<close> is the
  ledger's answer for the address of another application (\<open>plugin.address\<close>,
  \<open>this.revocationApp.value.address\<close>): \<open>None\<close> for an application that does not exist.
  \<open>AkitaDomain\<close> is the constant imported from \<open>./constants\<close>, and
  \<open>verifyAuthAddrSelector\<close> is the value of \<open>method('arc58_verifyAuthAddr()void')\<close>;
  neither is spelled out in the contract, so both are parameters.
\<close>

record Env =
  txnsBefore :: "Txn list"
  txn :: Txn
  txnsAfter :: "Txn list"
  globals_round :: uint64
  globals_callerApplicationID :: AppID
  globals_currentApplicationAddress :: Address
  app :: AppID
  appAddress :: "AppID \<rightharpoonup> Address"
  AkitaDomain :: bytes
  verifyAuthAddrSelector :: bytes

definition txnGroup :: "Env \<Rightarrow> Txn list" where
  "txnGroup env = txnsBefore env @ txn env # txnsAfter env"

definition groupIndex :: "Env \<Rightarrow> nat" where
  "groupIndex env = length (txnsBefore env)"

definition zeroAddress :: Address where
  "zeroAddress = 0"

text \<open>
  The contract's global state keys; the application's boxes, one map from box names to box
  contents that the three \<open>BoxMap\<close>s share; and the one piece of ledger state the contract
  reads and writes, the auth address of every account (\<open>zeroAddress\<close> for an account that
  is not rekeyed).
\<close>

record State =
  version :: string
  factoryApp :: AppID
  admin :: Address
  controlledAddress :: Address
  revocationApp :: AppID
  boxes :: "bytes \<rightharpoonup> bytes"
  authAddr :: "Address \<Rightarrow> Address"

datatype error =
  ADMIN_AND_CONTROLLED_ADDRESS_SAME
  | MUST_BE_DEPLOYED_FROM_FACTORY
  | ONLY_ADMIN_CAN_UPDATE
  | ONLY_ADMIN_CAN_CHANGE_REVOKE
  | ONLY_ADMIN_CAN_CHANGE_ADMIN
  | ONLY_ADMIN_CAN_REKEY
  | ONLY_ADMIN_CAN_ADD_PLUGIN
  | NAMED_PLUGIN_ALREADY_EXISTS
  | ONLY_ADMIN_OR_REVOCATION_APP_CAN_REMOVE_PLUGIN
  | SENDER_NOT_ALLOWED_TO_CALL_PLUGIN
  | PLUGIN_DOES_NOT_CONTROL_WALLET
  | PLUGIN_DOES_NOT_HAVE_ADMIN_PRIVILEGES
  | DOMAIN_MUST_BE_LONGER_THAN_ZERO
  | ASSERT_FAILED
  | VERIFY_TXN_FAILED
  | BOX_DOES_NOT_EXIST
  | BOX_NAME_INVALID
  | BOX_SIZE_MISMATCH
  | BOX_OUT_OF_RANGE
  | APP_DOES_NOT_EXIST
  | UINT64_UNDERFLOW
  | INNER_TXN_REJECTED
  | NO_SUCH_ROUTE

text \<open>
  The state the ledger keeps after a call: a call that fails leaves the state it started
  from, because the AVM rejects the whole group of a failing transaction.
\<close>

definition persisted :: "State \<Rightarrow> error + State \<Rightarrow> State" where
  "persisted s r = (case r of Inl e \<Rightarrow> s | Inr s' \<Rightarrow> s')"

subsection \<open>Bytes\<close>

text \<open>
  Integers and addresses are stored big-endian: \<open>itob\<close> gives the 8 bytes of a
  \<open>uint64\<close>, \<open>btoi\<close> reads them back, and an address is its 32 bytes.
\<close>

fun bigEndian :: "nat \<Rightarrow> 'a::len word \<Rightarrow> bytes" where
  "bigEndian 0 w = []"
| "bigEndian (Suc n) w = bigEndian n (drop_bit 8 w) @ [ucast w]"

definition fromBigEndian :: "bytes \<Rightarrow> 'a::len word" where
  "fromBigEndian bs = foldl (\<lambda>acc b. push_bit 8 acc OR ucast b) 0 bs"

definition itob :: "uint64 \<Rightarrow> bytes" where
  "itob w = bigEndian 8 w"

definition btoi :: "bytes \<Rightarrow> uint64" where
  "btoi bs = fromBigEndian bs"

definition addressBytes :: "Address \<Rightarrow> bytes" where
  "addressBytes a = bigEndian 32 a"

definition bytesAddress :: "bytes \<Rightarrow> Address" where
  "bytesAddress bs = fromBigEndian bs"

text \<open>
  The ABI encoding of the two structs: a \<open>PluginsKey\<close> is 40 bytes and a \<open>PluginInfo\<close> is
  25 bytes. Decoding reads the fields at their offsets, as the contract does on a box.
\<close>

definition encodePluginsKey :: "PluginsKey \<Rightarrow> bytes" where
  "encodePluginsKey key = itob (application key) @ addressBytes (allowedCaller key)"

definition decodePluginsKey :: "bytes \<Rightarrow> PluginsKey" where
  "decodePluginsKey b =
     \<lparr>application = btoi (take 8 b), allowedCaller = bytesAddress (take 32 (drop 8 b))\<rparr>"

definition encodePluginInfo :: "PluginInfo \<Rightarrow> bytes" where
  "encodePluginInfo info =
     itob (lastValidRound info) @ itob (cooldown info) @ itob (lastCalled info) @
     [adminPrivileges info]"

definition decodePluginInfo :: "bytes \<Rightarrow> PluginInfo" where
  "decodePluginInfo b =
     \<lparr>lastValidRound = btoi (take 8 b), cooldown = btoi (take 8 (drop 8 b)),
      lastCalled = btoi (take 8 (drop 16 b)), adminPrivileges = hd (drop 24 b)\<rparr>"

subsection \<open>Boxes\<close>

text \<open>
  The names of the boxes of the three \<open>BoxMap\<close>s. \<open>plugins\<close> and \<open>passkeys\<close> are declared
  without a prefix, so the name of their box is the encoded key; \<open>namedPlugins\<close> has the
  prefix \<open>n\<close> (byte 110). All of them live in the one box store of the application.
\<close>

definition pluginsBox :: "PluginsKey \<Rightarrow> bytes" where
  "pluginsBox key = encodePluginsKey key"

definition passkeysBox :: "Address \<Rightarrow> bytes" where
  "passkeysBox a = addressBytes a"

definition namedPluginsBox :: "bytes \<Rightarrow> bytes" where
  "namedPluginsBox name = 110 # name"

text \<open>
  The AVM's box operations. A box name has between 1 and 64 bytes. \<open>box_get\<close> is the read
  of a whole value, which asserts that the box exists; \<open>box_put\<close> creates a box or
  overwrites one of the same size; \<open>box_replace\<close> and \<open>box_extract\<close> stay within the box;
  \<open>box_del\<close> of a box that does not exist does nothing.
\<close>

definition validBoxName :: "bytes \<Rightarrow> bool" where
  "validBoxName n \<longleftrightarrow> 0 < length n \<and> length n \<le> 64"

definition box_exists :: "State \<Rightarrow> bytes \<Rightarrow> error + bool" where
  "box_exists s n =
     (if \<not> validBoxName n then Inl BOX_NAME_INVALID else Inr (boxes s n \<noteq> None))"

definition box_get :: "State \<Rightarrow> bytes \<Rightarrow> error + bytes" where
  "box_get s n =
     (if \<not> validBoxName n then Inl BOX_NAME_INVALID
      else case boxes s n of None \<Rightarrow> Inl BOX_DOES_NOT_EXIST | Some b \<Rightarrow> Inr b)"

definition box_extract :: "State \<Rightarrow> bytes \<Rightarrow> nat \<Rightarrow> nat \<Rightarrow> error + bytes" where
  "box_extract s n off len =
     (if \<not> validBoxName n then Inl BOX_NAME_INVALID
      else case boxes s n of
        None \<Rightarrow> Inl BOX_DOES_NOT_EXIST
      | Some b \<Rightarrow>
          if off + len \<le> length b then Inr (take len (drop off b)) else Inl BOX_OUT_OF_RANGE)"

definition box_put :: "State \<Rightarrow> bytes \<Rightarrow> bytes \<Rightarrow> error + State" where
  "box_put s n v =
     (if \<not> validBoxName n then Inl BOX_NAME_INVALID
      else case boxes s n of
        None \<Rightarrow> Inr (s\<lparr>boxes := (boxes s)(n \<mapsto> v)\<rparr>)
      | Some b \<Rightarrow>
          if length b = length v then Inr (s\<lparr>boxes := (boxes s)(n \<mapsto> v)\<rparr>)
          else Inl BOX_SIZE_MISMATCH)"

definition box_replace :: "State \<Rightarrow> bytes \<Rightarrow> nat \<Rightarrow> bytes \<Rightarrow> error + State" where
  "box_replace s n off v =
     (if \<not> validBoxName n then Inl BOX_NAME_INVALID
      else case boxes s n of
        None \<Rightarrow> Inl BOX_DOES_NOT_EXIST
      | Some b \<Rightarrow>
          if off + length v \<le> length b
          then Inr (s\<lparr>boxes := (boxes s)(n \<mapsto> take off b @ v @ drop (off + length v) b)\<rparr>)
          else Inl BOX_OUT_OF_RANGE)"

definition box_del :: "State \<Rightarrow> bytes \<Rightarrow> error + State" where
  "box_del s n =
     (if \<not> validBoxName n then Inl BOX_NAME_INVALID
      else Inr (s\<lparr>boxes := (boxes s)(n := None)\<rparr>))"

definition box_uint64 :: "State \<Rightarrow> bytes \<Rightarrow> nat \<Rightarrow> error + uint64" where
  "box_uint64 s n off =
     (case box_extract s n off 8 of Inl e \<Rightarrow> Inl e | Inr b \<Rightarrow> Inr (btoi b))"

definition box_uint8 :: "State \<Rightarrow> bytes \<Rightarrow> nat \<Rightarrow> error + uint8" where
  "box_uint8 s n off =
     (case box_extract s n off 1 of Inl e \<Rightarrow> Inl e | Inr b \<Rightarrow> Inr (hd b))"

text \<open>
  What the three \<open>BoxMap\<close>s hold, read off the box store: the grant under a key is the
  record read from a box of at least 25 bytes under the key's name, the key under a name is
  read from a box of at least 40 bytes, and a passkey's domain is the whole box.
\<close>

definition plugins :: "State \<Rightarrow> PluginsKey \<rightharpoonup> PluginInfo" where
  "plugins s key =
     (case boxes s (pluginsBox key) of
        None \<Rightarrow> None
      | Some b \<Rightarrow> if 25 \<le> length b then Some (decodePluginInfo b) else None)"

definition pluginsExists :: "State \<Rightarrow> PluginsKey \<Rightarrow> bool" where
  "pluginsExists s key \<longleftrightarrow> boxes s (pluginsBox key) \<noteq> None"

definition namedPlugins :: "State \<Rightarrow> bytes \<rightharpoonup> PluginsKey" where
  "namedPlugins s name =
     (case boxes s (namedPluginsBox name) of
        None \<Rightarrow> None
      | Some b \<Rightarrow> if 40 \<le> length b then Some (decodePluginsKey b) else None)"

definition namedPluginsExists :: "State \<Rightarrow> bytes \<Rightarrow> bool" where
  "namedPluginsExists s name \<longleftrightarrow>
     validBoxName (namedPluginsBox name) \<and> boxes s (namedPluginsBox name) \<noteq> None"

definition passkeys :: "State \<Rightarrow> Address \<rightharpoonup> bytes" where
  "passkeys s a = boxes s (passkeysBox a)"

subsection \<open>The inner payment\<close>

text \<open>
  \<open>sendPayment\<close> submits an inner payment of amount zero from \<open>sender\<close> with the given
  \<open>rekeyTo\<close>. The ledger accepts an inner transaction only when the application's account
  is the one authorised to sign for the sender: the sender's auth address, or the sender
  itself when it is not rekeyed. An accepted payment with a non-zero \<open>rekeyTo\<close> sets the
  sender's auth address to it (a rekey to the sender itself clears it).
\<close>

definition signer :: "State \<Rightarrow> Address \<Rightarrow> Address" where
  "signer s a = (if authAddr s a = zeroAddress then a else authAddr s a)"

definition sendPayment :: "Env \<Rightarrow> State \<Rightarrow> Address \<Rightarrow> Address \<Rightarrow> error + State" where
  "sendPayment env s snd' rekey =
     (if signer s snd' \<noteq> globals_currentApplicationAddress env then Inl INNER_TXN_REJECTED
      else if rekey = zeroAddress then Inr s
      else Inr (s\<lparr>authAddr := (authAddr s)
                  (snd' := (if rekey = snd' then zeroAddress else rekey))\<rparr>))"

subsection \<open>Private methods\<close>

definition explicitRekeyBack :: "State \<Rightarrow> Txn \<Rightarrow> bool" where
  "explicitRekeyBack s t \<longleftrightarrow>
     sender t = controlledAddress s \<and> rekeyTo t = controlledAddress s"

definition verifyAuthAddrCall :: "Env \<Rightarrow> Txn \<Rightarrow> bool" where
  "verifyAuthAddrCall env t \<longleftrightarrow>
     typeEnum t = ApplicationCall \<and> applicationID t = app env \<and>
     length (applicationArgs t) = 1 \<and>
     applicationArgs t ! 0 = verifyAuthAddrSelector env"

text \<open>The loop of \<open>verifyRekeyToAbstractedAccount\<close>, from index \<open>i\<close>; its value is \<open>rekeyedBack\<close>.\<close>

function rekeyedBack_from :: "Env \<Rightarrow> State \<Rightarrow> nat \<Rightarrow> bool" where
  "rekeyedBack_from env s i =
     (if i < length (txnGroup env) then
        (if explicitRekeyBack s (txnGroup env ! i) then True
         else if verifyAuthAddrCall env (txnGroup env ! i) then True
         else rekeyedBack_from env s (i + 1))
      else False)"
  by pat_completeness auto
termination
  by (relation "measure (\<lambda>(env, s, i). length (txnGroup env) - i)") auto

declare rekeyedBack_from.simps [simp del]

definition verifyRekeyToAbstractedAccount :: "Env \<Rightarrow> State \<Rightarrow> error + unit" where
  "verifyRekeyToAbstractedAccount env s =
     (if rekeyedBack_from env s (groupIndex env) then Inr () else Inl ASSERT_FAILED)"

definition getAuthAddr :: "Env \<Rightarrow> State \<Rightarrow> Address" where
  "getAuthAddr env s =
     (if controlledAddress s = globals_currentApplicationAddress env then zeroAddress
      else globals_currentApplicationAddress env)"

text \<open>
  \<open>isAdmin\<close> reads the box of the sender's passkey, whose name (32 bytes) is always a valid
  box name.
\<close>

definition isAdmin :: "Env \<Rightarrow> State \<Rightarrow> bool" where
  "isAdmin env s \<longleftrightarrow>
     sender (txn env) = admin s \<or>
     (case boxes s (passkeysBox (sender (txn env))) of
        None \<Rightarrow> False
      | Some domain \<Rightarrow> domain = AkitaDomain env)"

text \<open>
  \<open>canRevoke\<close> compares the sender with the address of the revocation application, which
  the ledger gives only for an application that exists.
\<close>

definition canRevoke :: "Env \<Rightarrow> State \<Rightarrow> error + bool" where
  "canRevoke env s =
     (case appAddress env (revocationApp s) of
        None \<Rightarrow> Inl APP_DOES_NOT_EXIST
      | Some a \<Rightarrow> Inr (sender (txn env) = a))"

text \<open>The guard \<open>assert(this.isAdmin() || this.canRevoke(), ...)\<close> of the two removals.\<close>

definition assertAdminOrRevoker :: "Env \<Rightarrow> State \<Rightarrow> error + unit" where
  "assertAdminOrRevoker env s =
     (if isAdmin env s then Inr ()
      else case canRevoke env s of
        Inl e \<Rightarrow> Inl e
      | Inr ok \<Rightarrow>
          if ok then Inr () else Inl ONLY_ADMIN_OR_REVOCATION_APP_CAN_REMOVE_PLUGIN)"

text \<open>
  \<open>pluginCallAllowed\<close>: the three conjuncts are evaluated left to right and the first false
  one ends the evaluation; each field is read from the box at its offset. The subtraction
  \<open>globals.round - lastCalled\<close> is the AVM's, which fails when \<open>lastCalled\<close> is the larger.
\<close>

definition pluginCallAllowed :: "Env \<Rightarrow> State \<Rightarrow> AppID \<Rightarrow> Address \<Rightarrow> error + bool" where
  "pluginCallAllowed env s app' caller =
     (let key = pluginsBox \<lparr>application = app', allowedCaller = caller\<rparr> in
      case box_exists s key of
        Inl e \<Rightarrow> Inl e
      | Inr exists \<Rightarrow>
          if \<not> exists then Inr False
          else case box_uint64 s key 0 of
            Inl e \<Rightarrow> Inl e
          | Inr lastValid \<Rightarrow>
              if \<not> globals_round env \<le> lastValid then Inr False
              else case box_uint64 s key 16 of
                Inl e \<Rightarrow> Inl e
              | Inr called \<Rightarrow>
                  if globals_round env < called then Inl UINT64_UNDERFLOW
                  else case box_uint64 s key 8 of
                    Inl e \<Rightarrow> Inl e
                  | Inr cool \<Rightarrow> Inr (cool \<le> globals_round env - called))"

subsection \<open>Public methods\<close>

definition createApplication ::
  "Env \<Rightarrow> State \<Rightarrow> string \<Rightarrow> Address \<Rightarrow> Address \<Rightarrow> AppID \<Rightarrow> error + State" where
  "createApplication env s version' controlledAddress' admin' revocationApp' =
     (if admin' = controlledAddress' then Inl ADMIN_AND_CONTROLLED_ADDRESS_SAME
      else if globals_callerApplicationID env = 0 then Inl MUST_BE_DEPLOYED_FROM_FACTORY
      else Inr (s\<lparr>version := version',
                  factoryApp := globals_callerApplicationID env,
                  admin := admin',
                  revocationApp := revocationApp',
                  controlledAddress :=
                    (if controlledAddress' = zeroAddress
                     then globals_currentApplicationAddress env
                     else controlledAddress')\<rparr>))"

definition updateApplication :: "Env \<Rightarrow> State \<Rightarrow> string \<Rightarrow> error + State" where
  "updateApplication env s version' =
     (if \<not> isAdmin env s then Inl ONLY_ADMIN_CAN_UPDATE
      else Inr (s\<lparr>version := version'\<rparr>))"

definition changeRevocationApp :: "Env \<Rightarrow> State \<Rightarrow> AppID \<Rightarrow> error + State" where
  "changeRevocationApp env s newRevocationApp =
     (if \<not> isAdmin env s then Inl ONLY_ADMIN_CAN_CHANGE_REVOKE
      else Inr (s\<lparr>revocationApp := newRevocationApp\<rparr>))"

definition arc58_changeAdmin :: "Env \<Rightarrow> State \<Rightarrow> Address \<Rightarrow> error + State" where
  "arc58_changeAdmin env s newAdmin =
     (if \<not> isAdmin env s then Inl ONLY_ADMIN_CAN_CHANGE_ADMIN
      else Inr (s\<lparr>admin := newAdmin\<rparr>))"

definition arc58_pluginChangeAdmin ::
  "Env \<Rightarrow> State \<Rightarrow> AppID \<Rightarrow> Address \<Rightarrow> Address \<Rightarrow> error + State" where
  "arc58_pluginChangeAdmin env s plugin caller newAdmin =
     (case appAddress env plugin of
        None \<Rightarrow> Inl APP_DOES_NOT_EXIST
      | Some pluginAddress \<Rightarrow>
          if sender (txn env) \<noteq> pluginAddress then Inl VERIFY_TXN_FAILED
          else if authAddr s (controlledAddress s) \<noteq> pluginAddress
            then Inl PLUGIN_DOES_NOT_CONTROL_WALLET
          else
            let key = pluginsBox \<lparr>application = plugin, allowedCaller = caller\<rparr> in
            case box_exists s key of
              Inl e \<Rightarrow> Inl e
            | Inr exists \<Rightarrow>
                if \<not> exists then Inl PLUGIN_DOES_NOT_HAVE_ADMIN_PRIVILEGES
                else case box_uint8 s key 24 of
                  Inl e \<Rightarrow> Inl e
                | Inr priv \<Rightarrow>
                    if priv = 0 then Inl PLUGIN_DOES_NOT_HAVE_ADMIN_PRIVILEGES
                    else Inr (s\<lparr>admin := newAdmin\<rparr>))"

definition arc58_verifyAuthAddr :: "Env \<Rightarrow> State \<Rightarrow> error + State" where
  "arc58_verifyAuthAddr env s =
     (if authAddr s (controlledAddress s) = getAuthAddr env s then Inr s
      else Inl ASSERT_FAILED)"

definition arc58_rekeyTo :: "Env \<Rightarrow> State \<Rightarrow> Address \<Rightarrow> error + State" where
  "arc58_rekeyTo env s addr =
     (if \<not> isAdmin env s then Inl ONLY_ADMIN_CAN_REKEY
      else case sendPayment env s (controlledAddress s) addr of
        Inl e \<Rightarrow> Inl e
      | Inr s1 \<Rightarrow>
          (case verifyRekeyToAbstractedAccount env s1 of
             Inl e \<Rightarrow> Inl e
           | Inr u \<Rightarrow> Inr s1))"

text \<open>
  \<open>arc58_rekeyToPlugin\<close>. The inner payment rekeys to \<open>plugin.address\<close>, which exists only
  for an application that exists. The write
  \<open>this.plugins(key).value.lastCalled = globals.round\<close> replaces the 8 bytes at offset 16 of
  the box.
\<close>

definition arc58_rekeyToPlugin :: "Env \<Rightarrow> State \<Rightarrow> AppID \<Rightarrow> error + State" where
  "arc58_rekeyToPlugin env s plugin =
     (case pluginCallAllowed env s plugin zeroAddress of
        Inl e \<Rightarrow> Inl e
      | Inr globalAllowed \<Rightarrow>
          (case (if \<not> globalAllowed then pluginCallAllowed env s plugin (sender (txn env))
                 else Inr True) of
             Inl e \<Rightarrow> Inl e
           | Inr allowed \<Rightarrow>
               if \<not> allowed then Inl SENDER_NOT_ALLOWED_TO_CALL_PLUGIN
               else
                 (case appAddress env plugin of
                    None \<Rightarrow> Inl APP_DOES_NOT_EXIST
                  | Some pluginAddress \<Rightarrow>
                 (case sendPayment env s (controlledAddress s) pluginAddress of
                    Inl e \<Rightarrow> Inl e
                  | Inr s1 \<Rightarrow>
                      (case box_replace s1
                              (pluginsBox
                                \<lparr>application = plugin,
                                 allowedCaller =
                                   (if globalAllowed then zeroAddress else sender (txn env))\<rparr>)
                              16 (itob (globals_round env)) of
                         Inl e \<Rightarrow> Inl e
                       | Inr s2 \<Rightarrow>
                           (case verifyRekeyToAbstractedAccount env s2 of
                              Inl e \<Rightarrow> Inl e
                            | Inr u \<Rightarrow> Inr s2))))))"

text \<open>\<open>this.namedPlugins(name).value.application\<close> is the first 8 bytes of the name's box.\<close>

definition arc58_rekeyToNamedPlugin :: "Env \<Rightarrow> State \<Rightarrow> bytes \<Rightarrow> error + State" where
  "arc58_rekeyToNamedPlugin env s name =
     (case box_uint64 s (namedPluginsBox name) 0 of
        Inl e \<Rightarrow> Inl e
      | Inr plugin \<Rightarrow> arc58_rekeyToPlugin env s plugin)"

text \<open>
  \<open>arc58_addPlugin\<close>. The grant is a value of fixed size, written with \<open>box_put\<close>; the
  domain is a value of variable size, for which the box is deleted before it is written.
\<close>

definition arc58_addPlugin ::
  "Env \<Rightarrow> State \<Rightarrow> AppID \<Rightarrow> Address \<Rightarrow> uint64 \<Rightarrow> uint64 \<Rightarrow> bool \<Rightarrow> bool \<Rightarrow> bytes
     \<Rightarrow> error + State" where
  "arc58_addPlugin env s app' caller lastValid cool adminPriv isPasskey domain =
     (if \<not> isAdmin env s then Inl ONLY_ADMIN_CAN_ADD_PLUGIN
      else
        case box_put s (pluginsBox \<lparr>application = app', allowedCaller = caller\<rparr>)
               (encodePluginInfo
                 \<lparr>lastValidRound = lastValid, cooldown = cool, lastCalled = 0,
                  adminPrivileges = (if adminPriv then 1 else 0)\<rparr>) of
          Inl e \<Rightarrow> Inl e
        | Inr s1 \<Rightarrow>
            if isPasskey then
              (if \<not> 0 < length domain then Inl DOMAIN_MUST_BE_LONGER_THAN_ZERO
               else case box_del s1 (passkeysBox caller) of
                 Inl e \<Rightarrow> Inl e
               | Inr s2 \<Rightarrow> box_put s2 (passkeysBox caller) domain)
            else Inr s1)"

definition arc58_removePlugin :: "Env \<Rightarrow> State \<Rightarrow> AppID \<Rightarrow> Address \<Rightarrow> error + State" where
  "arc58_removePlugin env s app' caller =
     (case assertAdminOrRevoker env s of
        Inl e \<Rightarrow> Inl e
      | Inr u \<Rightarrow> box_del s (pluginsBox \<lparr>application = app', allowedCaller = caller\<rparr>))"

definition arc58_addNamedPlugin ::
  "Env \<Rightarrow> State \<Rightarrow> bytes \<Rightarrow> AppID \<Rightarrow> Address \<Rightarrow> uint64 \<Rightarrow> uint64 \<Rightarrow> bool \<Rightarrow> error + State" where
  "arc58_addNamedPlugin env s name app' caller lastValid cool adminPriv =
     (if \<not> isAdmin env s then Inl ONLY_ADMIN_CAN_ADD_PLUGIN
      else case box_exists s (namedPluginsBox name) of
        Inl e \<Rightarrow> Inl e
      | Inr exists \<Rightarrow>
          if exists then Inl NAMED_PLUGIN_ALREADY_EXISTS
          else
            let key = \<lparr>application = app', allowedCaller = caller\<rparr> in
            case box_put s (namedPluginsBox name) (encodePluginsKey key) of
              Inl e \<Rightarrow> Inl e
            | Inr s1 \<Rightarrow>
                box_put s1 (pluginsBox key)
                  (encodePluginInfo
                    \<lparr>lastValidRound = lastValid, cooldown = cool, lastCalled = 0,
                     adminPrivileges = (if adminPriv then 1 else 0)\<rparr>))"

text \<open>
  \<open>arc58_removeNamedPlugin\<close>. The constant \<open>app\<close> of the source stands for the box
  \<open>this.namedPlugins(name)\<close> itself, not for a copy of its value: the value is read where
  \<open>app\<close> is used, in \<open>this.plugins(app).delete()\<close>, which is after the box has been
  deleted.
\<close>

definition arc58_removeNamedPlugin :: "Env \<Rightarrow> State \<Rightarrow> bytes \<Rightarrow> error + State" where
  "arc58_removeNamedPlugin env s name =
     (case assertAdminOrRevoker env s of
        Inl e \<Rightarrow> Inl e
      | Inr u \<Rightarrow>
          case box_del s (namedPluginsBox name) of
            Inl e \<Rightarrow> Inl e
          | Inr s1 \<Rightarrow>
              case box_get s1 (namedPluginsBox name) of
                Inl e \<Rightarrow> Inl e
              | Inr app' \<Rightarrow> box_del s1 app')"

subsection \<open>Calls and sequences of calls\<close>

datatype Call =
  CreateApplication string Address Address AppID
  | UpdateApplication string
  | ChangeRevocationApp AppID
  | Arc58_changeAdmin Address
  | Arc58_pluginChangeAdmin AppID Address Address
  | Arc58_verifyAuthAddr
  | Arc58_rekeyTo Address
  | Arc58_rekeyToPlugin AppID
  | Arc58_rekeyToNamedPlugin bytes
  | Arc58_addPlugin AppID Address uint64 uint64 bool bool bytes
  | Arc58_removePlugin AppID Address
  | Arc58_addNamedPlugin bytes AppID Address uint64 uint64 bool
  | Arc58_removeNamedPlugin bytes

text \<open>The methods of an application that exists; \<open>createApplication\<close> is not among them.\<close>

fun existingCall :: "Env \<Rightarrow> State \<Rightarrow> Call \<Rightarrow> error + State" where
  "existingCall env s (CreateApplication v c a r) = Inl NO_SUCH_ROUTE"
| "existingCall env s (UpdateApplication v) = updateApplication env s v"
| "existingCall env s (ChangeRevocationApp r) = changeRevocationApp env s r"
| "existingCall env s (Arc58_changeAdmin a) = arc58_changeAdmin env s a"
| "existingCall env s (Arc58_pluginChangeAdmin p c a) = arc58_pluginChangeAdmin env s p c a"
| "existingCall env s Arc58_verifyAuthAddr = arc58_verifyAuthAddr env s"
| "existingCall env s (Arc58_rekeyTo a) = arc58_rekeyTo env s a"
| "existingCall env s (Arc58_rekeyToPlugin p) = arc58_rekeyToPlugin env s p"
| "existingCall env s (Arc58_rekeyToNamedPlugin n) = arc58_rekeyToNamedPlugin env s n"
| "existingCall env s (Arc58_addPlugin p c l cd ap pk d) = arc58_addPlugin env s p c l cd ap pk d"
| "existingCall env s (Arc58_removePlugin p c) = arc58_removePlugin env s p c"
| "existingCall env s (Arc58_addNamedPlugin n p c l cd ap) =
     arc58_addNamedPlugin env s n p c l cd ap"
| "existingCall env s (Arc58_removeNamedPlugin n) = arc58_removeNamedPlugin env s n"

text \<open>
  The router: the call that creates the application (its transaction has application
  identifier 0) runs \<open>createApplication\<close> and nothing else; every later call runs one of
  the other methods.
\<close>

definition dispatch :: "Env \<Rightarrow> State \<Rightarrow> Call \<Rightarrow> error + State" where
  "dispatch env s c =
     (if applicationID (txn env) = 0 then
        (case c of
           CreateApplication v ca a r \<Rightarrow> createApplication env s v ca a r
         | _ \<Rightarrow> Inl NO_SUCH_ROUTE)
      else existingCall env s c)"

text \<open>A sequence of calls, each in its own environment, stopping at the first failure.\<close>

fun run :: "State \<Rightarrow> (Env \<times> Call) list \<Rightarrow> error + State" where
  "run s [] = Inr s"
| "run s (ec # rest) =
     (case dispatch (fst ec) s (snd ec) of Inl e \<Rightarrow> Inl e | Inr s' \<Rightarrow> run s' rest)"

subsection \<open>Keys and calls named in the statements\<close>

text \<open>
  The key whose grant \<open>arc58_rekeyToPlugin\<close> stamps: the wildcard key when the wildcard
  grant is active (\<open>globalAllowed\<close>), the sender's key otherwise.
\<close>

definition stampedKey :: "Env \<Rightarrow> State \<Rightarrow> AppID \<Rightarrow> PluginsKey" where
  "stampedKey env s plugin =
     \<lparr>application = plugin,
      allowedCaller =
        (if pluginCallAllowed env s plugin zeroAddress = Inr True then zeroAddress
         else sender (txn env))\<rparr>"

text \<open>
  The grant a call registers, with its key; and the key of the grant a delegation stamps,
  which for a delegation by name is read from the name's box.
\<close>

fun registration :: "Call \<Rightarrow> (PluginsKey \<times> PluginInfo) option" where
  "registration (Arc58_addPlugin p c l cd ap pk d) =
     Some (\<lparr>application = p, allowedCaller = c\<rparr>,
           \<lparr>lastValidRound = l, cooldown = cd, lastCalled = 0,
            adminPrivileges = (if ap then 1 else 0)\<rparr>)"
| "registration (Arc58_addNamedPlugin n p c l cd ap) =
     Some (\<lparr>application = p, allowedCaller = c\<rparr>,
           \<lparr>lastValidRound = l, cooldown = cd, lastCalled = 0,
            adminPrivileges = (if ap then 1 else 0)\<rparr>)"
| "registration c = None"

fun delegation :: "Env \<Rightarrow> State \<Rightarrow> Call \<Rightarrow> PluginsKey option" where
  "delegation env s (Arc58_rekeyToPlugin p) = Some (stampedKey env s p)"
| "delegation env s (Arc58_rekeyToNamedPlugin n) =
     (case box_uint64 s (namedPluginsBox n) 0 of
        Inl e \<Rightarrow> None
      | Inr p \<Rightarrow> Some (stampedKey env s p))"
| "delegation env s c = None"

subsection \<open>A concrete deployment\<close>

text \<open>
  Controller application 100 at address 1100, which is also the address it controls,
  minted by factory 50, with admin address 1 and revocation application 60 (address 1060).
  Plugin 7 (address 1007) is the one plugin application that exists.
\<close>

definition demoAppAddress :: "AppID \<rightharpoonup> Address" where
  "demoAppAddress = [7 \<mapsto> 1007, 60 \<mapsto> 1060, 100 \<mapsto> 1100]"

definition demoSelector :: bytes where
  "demoSelector = [15, 136, 84, 147]"

definition demoCall :: "Address \<Rightarrow> Txn" where
  "demoCall a =
     \<lparr>sender = a, rekeyTo = zeroAddress, typeEnum = ApplicationCall, applicationID = 100,
      applicationArgs = [[124, 118, 109, 220], [0, 0, 0, 0, 0, 0, 0, 7]]\<rparr>"

definition demoVerify :: "Address \<Rightarrow> Txn" where
  "demoVerify a =
     \<lparr>sender = a, rekeyTo = zeroAddress, typeEnum = ApplicationCall, applicationID = 100,
      applicationArgs = [demoSelector]\<rparr>"

definition demoPay :: "Address \<Rightarrow> Address \<Rightarrow> Txn" where
  "demoPay a r =
     \<lparr>sender = a, rekeyTo = r, typeEnum = Payment, applicationID = 0, applicationArgs = []\<rparr>"

definition demoEnv :: "Address \<Rightarrow> uint64 \<Rightarrow> Txn list \<Rightarrow> Env" where
  "demoEnv a r after =
     \<lparr>txnsBefore = [], txn = demoCall a, txnsAfter = after, globals_round = r,
      globals_callerApplicationID = 0, globals_currentApplicationAddress = 1100, app = 100,
      appAddress = demoAppAddress, AkitaDomain = [97, 107, 105, 116, 97],
      verifyAuthAddrSelector = demoSelector\<rparr>"

definition createEnv :: Env where
  "createEnv =
     (demoEnv 1 1 [])\<lparr>txn := (demoCall 1)\<lparr>applicationID := 0\<rparr>,
                      globals_callerApplicationID := 50\<rparr>"

definition emptyState :: State where
  "emptyState =
     \<lparr>version = [], factoryApp = 0, admin = 0, controlledAddress = 0, revocationApp = 0,
      boxes = Map.empty, authAddr = (\<lambda>a. 0)\<rparr>"

definition demoState :: State where
  "demoState =
     \<lparr>version = ''1'', factoryApp = 50, admin = 1, controlledAddress = 1100,
      revocationApp = 60, boxes = Map.empty, authAddr = (\<lambda>a. 0)\<rparr>"

definition wildcardKey :: "AppID \<Rightarrow> PluginsKey" where
  "wildcardKey p = \<lparr>application = p, allowedCaller = zeroAddress\<rparr>"

definition callerKey :: "AppID \<Rightarrow> Address \<Rightarrow> PluginsKey" where
  "callerKey p c = \<lparr>application = p, allowedCaller = c\<rparr>"

definition grant :: "uint64 \<Rightarrow> uint64 \<Rightarrow> uint64 \<Rightarrow> uint8 \<Rightarrow> PluginInfo" where
  "grant lv cd lc ap =
     \<lparr>lastValidRound = lv, cooldown = cd, lastCalled = lc, adminPrivileges = ap\<rparr>"

text \<open>
  The deployment with the grant of plugin 7 to the wildcard caller; the same while plugin 7
  holds the controlled address (after a delegation at round 3); with the grant registered
  under the one-byte name \<open>x\<close>; and with a grant of plugin 7 to caller 2 alone.
\<close>

definition grantState :: "uint64 \<Rightarrow> uint64 \<Rightarrow> uint64 \<Rightarrow> State" where
  "grantState lv cd lc =
     demoState\<lparr>boxes := [pluginsBox (wildcardKey 7) \<mapsto> encodePluginInfo (grant lv cd lc 0)]\<rparr>"

definition delegatedState :: "uint8 \<Rightarrow> State" where
  "delegatedState ap =
     demoState\<lparr>boxes := [pluginsBox (wildcardKey 7) \<mapsto> encodePluginInfo (grant 1000 0 3 ap)],
       authAddr := (\<lambda>a. 0)(1100 := 1007)\<rparr>"

definition nameX :: bytes where
  "nameX = [120]"

definition namedState :: State where
  "namedState =
     demoState\<lparr>boxes := [namedPluginsBox nameX \<mapsto> encodePluginsKey (wildcardKey 7),
                          pluginsBox (wildcardKey 7) \<mapsto> encodePluginInfo (grant 1000 0 0 0)]\<rparr>"

text \<open>The deployment with a wildcard grant for application 9, which does not exist.\<close>

definition ghostState :: State where
  "ghostState =
     demoState\<lparr>boxes := [pluginsBox (wildcardKey 9) \<mapsto> encodePluginInfo (grant 1000 0 0 0)]\<rparr>"

definition callerGrantState :: State where
  "callerGrantState =
     demoState\<lparr>boxes := [pluginsBox (callerKey 7 2) \<mapsto> encodePluginInfo (grant 1000 0 0 0)]\<rparr>"


text \<open>
  A name of 39 bytes \<open>a\<close> and the plugin key whose 40 bytes are \<open>n\<close> followed by 39 bytes
  \<open>a\<close>, and the deployment after the admin has registered plugin 7 under that name.
\<close>

definition aliasName :: bytes where
  "aliasName = replicate 39 97"

definition aliasKey :: PluginsKey where
  "aliasKey =
     \<lparr>application = 0x6E61616161616161,
      allowedCaller = 0x6161616161616161616161616161616161616161616161616161616161616161\<rparr>"

definition aliasState :: State where
  "aliasState =
     demoState\<lparr>boxes := [namedPluginsBox aliasName \<mapsto> encodePluginsKey (wildcardKey 7),
                          pluginsBox (wildcardKey 7) \<mapsto> encodePluginInfo (grant 1000 0 0 0)]\<rparr>"

section \<open>Properties\<close>

subsection \<open>Encodings\<close>

lemma length_bigEndian [simp]: "length (bigEndian n w) = n"
  by (induction n arbitrary: w) simp_all

lemma fromBigEndian_snoc:
  "fromBigEndian (bs @ [b]) = push_bit 8 (fromBigEndian bs) OR ucast b"
  by (simp add: fromBigEndian_def)

lemma fromBigEndian_bigEndian:
  "(fromBigEndian (bigEndian n w) :: 'a::len word) = take_bit (8 * n) w"
proof (induction n arbitrary: w)
  case 0
  then show ?case by (simp add: fromBigEndian_def)
next
  case (Suc n)
  have "(fromBigEndian (bigEndian (Suc n) w) :: 'a word) =
          push_bit 8 (take_bit (8 * n) (drop_bit 8 w)) OR ucast (ucast w :: uint8)"
    by (simp add: fromBigEndian_snoc Suc.IH)
  also have "\<dots> = take_bit (8 * Suc n) w"
    by (rule bit_word_eqI) (auto simp: bit_simps)
  finally show ?case .
qed

lemma btoi_itob [simp]: "btoi (itob w) = w"
  by (simp add: btoi_def itob_def fromBigEndian_bigEndian take_bit_word_eq_self)

lemma bytesAddress_addressBytes [simp]: "bytesAddress (addressBytes a) = a"
  by (simp add: bytesAddress_def addressBytes_def fromBigEndian_bigEndian take_bit_word_eq_self)

lemma length_itob [simp]: "length (itob w) = 8"
  by (simp add: itob_def)

lemma length_addressBytes [simp]: "length (addressBytes a) = 32"
  by (simp add: addressBytes_def)

lemma itob_inject [simp]: "itob v = itob w \<longleftrightarrow> v = w"
  by (metis btoi_itob)

lemma addressBytes_inject [simp]: "addressBytes a = addressBytes b \<longleftrightarrow> a = b"
  by (metis bytesAddress_addressBytes)

lemma length_encodePluginsKey [simp]: "length (encodePluginsKey k) = 40"
  by (simp add: encodePluginsKey_def)

lemma length_encodePluginInfo [simp]: "length (encodePluginInfo i) = 25"
  by (simp add: encodePluginInfo_def)

lemma decode_encodePluginsKey [simp]: "decodePluginsKey (encodePluginsKey k) = k"
  by (simp add: decodePluginsKey_def encodePluginsKey_def)

lemma decode_encodePluginInfo [simp]: "decodePluginInfo (encodePluginInfo i) = i"
  by (simp add: decodePluginInfo_def encodePluginInfo_def)

lemma encodePluginsKey_inject [simp]: "encodePluginsKey k = encodePluginsKey k' \<longleftrightarrow> k = k'"
  by (metis decode_encodePluginsKey)

subsection \<open>Box names\<close>

lemma length_pluginsBox [simp]: "length (pluginsBox k) = 40"
  by (simp add: pluginsBox_def)

lemma length_passkeysBox [simp]: "length (passkeysBox a) = 32"
  by (simp add: passkeysBox_def)

lemma length_namedPluginsBox [simp]: "length (namedPluginsBox n) = Suc (length n)"
  by (simp add: namedPluginsBox_def)

lemma pluginsBox_inject [simp]: "pluginsBox k = pluginsBox k' \<longleftrightarrow> k = k'"
  by (simp add: pluginsBox_def)

lemma passkeysBox_inject [simp]: "passkeysBox a = passkeysBox b \<longleftrightarrow> a = b"
  by (simp add: passkeysBox_def)

lemma namedPluginsBox_inject [simp]: "namedPluginsBox n = namedPluginsBox m \<longleftrightarrow> n = m"
  by (simp add: namedPluginsBox_def)

lemma pluginsBox_neq_passkeysBox [simp]: "pluginsBox k \<noteq> passkeysBox a"
proof
  assume "pluginsBox k = passkeysBox a"
  then have "length (pluginsBox k) = length (passkeysBox a)" by (rule arg_cong)
  then show False by simp
qed

lemma passkeysBox_neq_pluginsBox [simp]: "passkeysBox a \<noteq> pluginsBox k"
  using pluginsBox_neq_passkeysBox[of k a] by (rule not_sym)

lemma validBoxName_pluginsBox [simp]: "validBoxName (pluginsBox k)"
  by (simp add: validBoxName_def)

lemma validBoxName_passkeysBox [simp]: "validBoxName (passkeysBox a)"
  by (simp add: validBoxName_def)

lemma validBoxName_namedPluginsBox [simp]:
  "validBoxName (namedPluginsBox n) \<longleftrightarrow> length n \<le> 63"
  by (auto simp: validBoxName_def)

lemma namedPluginsBox_eq_pluginsBox_length:
  assumes "namedPluginsBox n = pluginsBox k"
  shows "length n = 39"
proof -
  from assms have "length (namedPluginsBox n) = length (pluginsBox k)" by (rule arg_cong)
  then show ?thesis by simp
qed

subsection \<open>What a box read returns\<close>

lemma box_uint64_Some:
  "boxes s (pluginsBox k) = Some b \<Longrightarrow> off + 8 \<le> length b \<Longrightarrow>
     box_uint64 s (pluginsBox k) off = Inr (btoi (take 8 (drop off b)))"
  by (simp add: box_uint64_def box_extract_def)

lemma box_uint64_short:
  "boxes s (pluginsBox k) = Some b \<Longrightarrow> \<not> off + 8 \<le> length b \<Longrightarrow>
     box_uint64 s (pluginsBox k) off = Inl BOX_OUT_OF_RANGE"
  by (simp add: box_uint64_def box_extract_def)

lemma plugins_SomeD:
  "plugins s k = Some info \<Longrightarrow>
     \<exists>b. boxes s (pluginsBox k) = Some b \<and> 25 \<le> length b \<and> info = decodePluginInfo b"
  by (auto simp: plugins_def split: option.splits if_splits)

lemma plugins_encoded:
  "boxes s (pluginsBox k) = Some (encodePluginInfo i) \<Longrightarrow> plugins s k = Some i"
  by (simp add: plugins_def)

lemma namedPlugins_encoded:
  "boxes s (namedPluginsBox n) = Some (encodePluginsKey k) \<Longrightarrow> namedPlugins s n = Some k"
  by (simp add: namedPlugins_def)

subsection \<open>The grant evaluator\<close>

lemma pluginCallAllowed_absent:
  "\<not> pluginsExists s \<lparr>application = p, allowedCaller = c\<rparr> \<Longrightarrow>
     pluginCallAllowed env s p c = Inr False"
  by (simp add: pluginCallAllowed_def pluginsExists_def box_exists_def)

lemma pluginCallAllowed_stored:
  assumes "plugins s \<lparr>application = p, allowedCaller = c\<rparr> = Some info"
  shows "pluginCallAllowed env s p c =
           (if \<not> globals_round env \<le> lastValidRound info then Inr False
            else if globals_round env < lastCalled info then Inl UINT64_UNDERFLOW
            else Inr (cooldown info \<le> globals_round env - lastCalled info))"
proof -
  from plugins_SomeD[OF assms] obtain b where
    b: "boxes s (pluginsBox \<lparr>application = p, allowedCaller = c\<rparr>) = Some b"
    and l: "25 \<le> length b" and i: "info = decodePluginInfo b" by blast
  from l have r: "0 + 8 \<le> length b" "16 + 8 \<le> length b" "8 + 8 \<le> length b" by simp_all
  show ?thesis
    unfolding pluginCallAllowed_def Let_def
    by (simp add: box_exists_def b box_uint64_Some[OF b r(1)] box_uint64_Some[OF b r(2)]
        box_uint64_Some[OF b r(3)] i decodePluginInfo_def)
qed

lemma cooldown_uint:
  fixes r l c :: uint64
  shows "(\<not> r < l \<and> c \<le> r - l) \<longleftrightarrow> uint c \<le> uint r - uint l"
proof (cases "l \<le> r")
  case True
  then have "uint (r - l) = uint r - uint l"
    by (simp add: uint_minus_simple_alt)
  with True show ?thesis by (simp add: word_le_def not_less)
next
  case False
  then have "uint r - uint l < 0" by (simp add: word_le_def)
  moreover have "0 \<le> uint c" by simp
  ultimately have "\<not> uint c \<le> uint r - uint l" by linarith
  with False show ?thesis by (simp add: not_le)
qed

lemma pluginCallAllowed_True_iff:
  assumes "plugins s \<lparr>application = p, allowedCaller = c\<rparr> = Some info"
    and "globals_round env \<le> lastValidRound info"
  shows "pluginCallAllowed env s p c = Inr True \<longleftrightarrow>
           uint (cooldown info) \<le> uint (globals_round env) - uint (lastCalled info)"
  using assms(2) cooldown_uint[of "globals_round env" "lastCalled info" "cooldown info"]
  by (auto simp: pluginCallAllowed_stored[OF assms(1)])

text \<open>
  C4. \<open>pluginCallAllowed\<close> is false when no grant exists under the key; false when the
  current round is past \<open>lastValidRound\<close>, whatever the cooldown; and for an unexpired
  grant it is true exactly when \<open>round - lastCalled \<ge> cooldown\<close>, read over the integers
  (when \<open>lastCalled\<close> is not above the round, the result is that comparison on \<open>uint64\<close>).
\<close>

theorem pluginCallAllowed_cases:
  "(\<not> pluginsExists s \<lparr>application = p, allowedCaller = c\<rparr> \<longrightarrow>
      pluginCallAllowed env s p c = Inr False) \<and>
   (\<forall>info. plugins s \<lparr>application = p, allowedCaller = c\<rparr> = Some info \<and>
      lastValidRound info < globals_round env \<longrightarrow>
      pluginCallAllowed env s p c = Inr False) \<and>
   (\<forall>info. plugins s \<lparr>application = p, allowedCaller = c\<rparr> = Some info \<and>
      globals_round env \<le> lastValidRound info \<longrightarrow>
      (pluginCallAllowed env s p c = Inr True \<longleftrightarrow>
         uint (cooldown info) \<le> uint (globals_round env) - uint (lastCalled info)) \<and>
      (lastCalled info \<le> globals_round env \<longrightarrow>
         pluginCallAllowed env s p c =
           Inr (cooldown info \<le> globals_round env - lastCalled info)))"
proof -
  have 1: "\<not> pluginsExists s \<lparr>application = p, allowedCaller = c\<rparr> \<longrightarrow>
      pluginCallAllowed env s p c = Inr False"
    using pluginCallAllowed_absent by blast
  have 2: "\<forall>info. plugins s \<lparr>application = p, allowedCaller = c\<rparr> = Some info \<and>
      lastValidRound info < globals_round env \<longrightarrow>
      pluginCallAllowed env s p c = Inr False"
    by (simp add: pluginCallAllowed_stored not_le)
  have 3: "\<forall>info. plugins s \<lparr>application = p, allowedCaller = c\<rparr> = Some info \<and>
      globals_round env \<le> lastValidRound info \<longrightarrow>
      (pluginCallAllowed env s p c = Inr True \<longleftrightarrow>
         uint (cooldown info) \<le> uint (globals_round env) - uint (lastCalled info)) \<and>
      (lastCalled info \<le> globals_round env \<longrightarrow>
         pluginCallAllowed env s p c =
           Inr (cooldown info \<le> globals_round env - lastCalled info))"
  proof (intro allI impI, elim conjE)
    fix info
    assume a: "plugins s \<lparr>application = p, allowedCaller = c\<rparr> = Some info"
      and b: "globals_round env \<le> lastValidRound info"
    have x: "pluginCallAllowed env s p c = Inr True \<longleftrightarrow>
         uint (cooldown info) \<le> uint (globals_round env) - uint (lastCalled info)"
      using pluginCallAllowed_True_iff[OF a b] .
    have y: "lastCalled info \<le> globals_round env \<longrightarrow>
         pluginCallAllowed env s p c =
           Inr (cooldown info \<le> globals_round env - lastCalled info)"
      using b by (auto simp: pluginCallAllowed_stored[OF a])
    from x y show "(pluginCallAllowed env s p c = Inr True \<longleftrightarrow>
         uint (cooldown info) \<le> uint (globals_round env) - uint (lastCalled info)) \<and>
      (lastCalled info \<le> globals_round env \<longrightarrow>
         pluginCallAllowed env s p c =
           Inr (cooldown info \<le> globals_round env - lastCalled info))" by (rule conjI)
  qed
  from 1 2 3 show ?thesis by (intro conjI)
qed

subsection \<open>The scan for the return of authority\<close>

lemma this_txn: "txnGroup env ! groupIndex env = txn env"
  by (simp add: txnGroup_def groupIndex_def)

lemma rekeyedBack_from_iff:
  "rekeyedBack_from env s i \<longleftrightarrow>
     (\<exists>j. i \<le> j \<and> j < length (txnGroup env) \<and>
        (explicitRekeyBack s (txnGroup env ! j) \<or> verifyAuthAddrCall env (txnGroup env ! j)))"
proof (induction env s i rule: rekeyedBack_from.induct)
  case (1 env s i)
  show ?case
  proof (cases "i < length (txnGroup env)")
    case False
    then show ?thesis by (subst rekeyedBack_from.simps) auto
  next
    case inb: True
    show ?thesis
    proof (cases "explicitRekeyBack s (txnGroup env ! i) \<or>
                  verifyAuthAddrCall env (txnGroup env ! i)")
      case True
      with inb show ?thesis by (subst rekeyedBack_from.simps) auto
    next
      case False
      with inb have "rekeyedBack_from env s i = rekeyedBack_from env s (i + 1)"
        by (subst rekeyedBack_from.simps) simp
      also have "\<dots> \<longleftrightarrow> (\<exists>j. i + 1 \<le> j \<and> j < length (txnGroup env) \<and>
        (explicitRekeyBack s (txnGroup env ! j) \<or> verifyAuthAddrCall env (txnGroup env ! j)))"
        using "1.IH" inb False by simp
      also have "\<dots> \<longleftrightarrow> (\<exists>j. i \<le> j \<and> j < length (txnGroup env) \<and>
        (explicitRekeyBack s (txnGroup env ! j) \<or> verifyAuthAddrCall env (txnGroup env ! j)))"
        using False by (metis Suc_eq_plus1 Suc_leI le_neq_implies_less Suc_leD)
      finally show ?thesis .
    qed
  qed
qed

lemma sendPayment_controlledAddress:
  "sendPayment env s a r = Inr s' \<Longrightarrow> controlledAddress s' = controlledAddress s"
  by (auto simp: sendPayment_def split: if_splits)

lemma sendPayment_boxes:
  "sendPayment env s a r = Inr s' \<Longrightarrow> boxes s' = boxes s"
  by (auto simp: sendPayment_def split: if_splits)

lemma box_replace_controlledAddress:
  "box_replace s n off v = Inr s' \<Longrightarrow> controlledAddress s' = controlledAddress s"
  by (auto simp: box_replace_def split: option.splits if_splits)

lemma verify_fails:
  assumes "\<forall>i. groupIndex env \<le> i \<and> i < length (txnGroup env) \<longrightarrow>
             \<not> explicitRekeyBack s (txnGroup env ! i) \<and>
             \<not> verifyAuthAddrCall env (txnGroup env ! i)"
    and "controlledAddress s' = controlledAddress s"
  shows "verifyRekeyToAbstractedAccount env s' = Inl ASSERT_FAILED"
  using assms
  by (auto simp: verifyRekeyToAbstractedAccount_def rekeyedBack_from_iff explicitRekeyBack_def)

lemma verify_passes:
  assumes "\<exists>i. groupIndex env \<le> i \<and> i < length (txnGroup env) \<and>
             (explicitRekeyBack s (txnGroup env ! i) \<or> verifyAuthAddrCall env (txnGroup env ! i))"
    and "controlledAddress s' = controlledAddress s"
  shows "verifyRekeyToAbstractedAccount env s' = Inr ()"
  using assms
  by (auto simp: verifyRekeyToAbstractedAccount_def rekeyedBack_from_iff explicitRekeyBack_def)

lemma rekeyToPlugin_fails:
  assumes "\<forall>i. groupIndex env \<le> i \<and> i < length (txnGroup env) \<longrightarrow>
             \<not> explicitRekeyBack s (txnGroup env ! i) \<and>
             \<not> verifyAuthAddrCall env (txnGroup env ! i)"
  shows "\<exists>e. arc58_rekeyToPlugin env s plugin = Inl e"
proof -
  have v: "\<And>s1 s2 k a.
        sendPayment env s (controlledAddress s) a = Inr s1 \<Longrightarrow>
        box_replace s1 k 16 (itob (globals_round env)) = Inr s2 \<Longrightarrow>
        verifyRekeyToAbstractedAccount env s2 = Inl ASSERT_FAILED"
    using verify_fails[OF assms] sendPayment_controlledAddress box_replace_controlledAddress
    by metis
  show ?thesis
    unfolding arc58_rekeyToPlugin_def
    by (auto split: sum.splits if_splits option.splits dest: v)
qed

lemma rekeyTo_fails:
  assumes "\<forall>i. groupIndex env \<le> i \<and> i < length (txnGroup env) \<longrightarrow>
             \<not> explicitRekeyBack s (txnGroup env ! i) \<and>
             \<not> verifyAuthAddrCall env (txnGroup env ! i)"
  shows "\<exists>e. arc58_rekeyTo env s addr = Inl e"
proof -
  have v: "\<And>s1. sendPayment env s (controlledAddress s) addr = Inr s1 \<Longrightarrow>
        verifyRekeyToAbstractedAccount env s1 = Inl ASSERT_FAILED"
    using verify_fails[OF assms] sendPayment_controlledAddress by metis
  show ?thesis
    unfolding arc58_rekeyTo_def
    by (auto split: sum.splits if_splits dest: v)
qed

text \<open>
  C1. When no transaction of the group, from the position of the call on, is an explicit
  rekey of the controlled address back to itself or a call of \<open>arc58_verifyAuthAddr\<close> on
  this application, a delegation to a plugin (\<open>arc58_rekeyToPlugin\<close>,
  \<open>arc58_rekeyToNamedPlugin\<close>) and an admin rekey (\<open>arc58_rekeyTo\<close>) fail, and the state
  that persists is the state before the call.
\<close>

theorem delegation_without_return_fails:
  assumes "\<forall>i. groupIndex env \<le> i \<and> i < length (txnGroup env) \<longrightarrow>
             \<not> explicitRekeyBack s (txnGroup env ! i) \<and>
             \<not> verifyAuthAddrCall env (txnGroup env ! i)"
  shows "(\<exists>e. arc58_rekeyToPlugin env s plugin = Inl e) \<and>
         persisted s (arc58_rekeyToPlugin env s plugin) = s \<and>
         (\<exists>e. arc58_rekeyToNamedPlugin env s name = Inl e) \<and>
         persisted s (arc58_rekeyToNamedPlugin env s name) = s \<and>
         (\<exists>e. arc58_rekeyTo env s addr = Inl e) \<and>
         persisted s (arc58_rekeyTo env s addr) = s"
proof -
  have a: "\<exists>e. arc58_rekeyToPlugin env s p = Inl e" for p
    using rekeyToPlugin_fails[OF assms] .
  have b: "\<exists>e. arc58_rekeyToNamedPlugin env s name = Inl e"
  proof (cases "box_uint64 s (namedPluginsBox name) 0")
    case (Inl e)
    then show ?thesis by (simp add: arc58_rekeyToNamedPlugin_def)
  next
    case (Inr p)
    with a[of p] show ?thesis by (simp add: arc58_rekeyToNamedPlugin_def)
  qed
  have c: "\<exists>e. arc58_rekeyTo env s addr = Inl e"
    using rekeyTo_fails[OF assms] .
  from a[of plugin] b c show ?thesis by (auto simp: persisted_def)
qed

subsection \<open>Evaluating the concrete deployment\<close>

lemma demo_plugins [simp]:
  "plugins (grantState lv cd lc) (wildcardKey 7) = Some (grant lv cd lc 0)"
  "plugins (delegatedState ap) (wildcardKey 7) = Some (grant 1000 0 3 ap)"
  "plugins namedState (wildcardKey 7) = Some (grant 1000 0 0 0)"
  "plugins callerGrantState (callerKey 7 2) = Some (grant 1000 0 0 0)"
  by (simp_all add: plugins_encoded grantState_def delegatedState_def namedState_def
      callerGrantState_def)

lemma demo_env [simp]:
  "globals_round (demoEnv a r after) = r"
  "sender (txn (demoEnv a r after)) = a"
  "globals_currentApplicationAddress (demoEnv a r after) = 1100"
  "appAddress (demoEnv a r after) 7 = Some 1007"
  "appAddress (demoEnv a r after) 60 = Some 1060"
  "applicationID (txn (demoEnv a r after)) = 100"
  by (simp_all add: demoEnv_def demoCall_def demoAppAddress_def)

lemma demo_globals [simp]:
  "admin (grantState lv cd lc) = 1" "admin (delegatedState ap) = 1" "admin namedState = 1"
  "admin demoState = 1" "admin callerGrantState = 1"
  "controlledAddress (grantState lv cd lc) = 1100" "controlledAddress (delegatedState ap) = 1100"
  "controlledAddress namedState = 1100" "controlledAddress demoState = 1100"
  "controlledAddress callerGrantState = 1100"
  "revocationApp namedState = 60" "revocationApp demoState = 60"
  by (simp_all add: grantState_def delegatedState_def namedState_def demoState_def
      callerGrantState_def)

lemma demo_no_return:
  "\<not> (\<exists>i. groupIndex (demoEnv a r []) \<le> i \<and> i < length (txnGroup (demoEnv a r [])) \<and>
       (explicitRekeyBack s (txnGroup (demoEnv a r []) ! i) \<or>
        verifyAuthAddrCall (demoEnv a r []) (txnGroup (demoEnv a r []) ! i)))"
  if "a \<noteq> controlledAddress s"
  using that
  by (simp add: groupIndex_def txnGroup_def demoEnv_def explicitRekeyBack_def
        verifyAuthAddrCall_def demoCall_def)

lemma grant_simps [simp]:
  "lastValidRound (grant lv cd lc ap) = lv" "cooldown (grant lv cd lc ap) = cd"
  "lastCalled (grant lv cd lc ap) = lc" "adminPrivileges (grant lv cd lc ap) = ap"
  by (simp_all add: grant_def)

subsection \<open>Delegation to a plugin\<close>

lemma pluginCallAllowed_TrueD:
  assumes "pluginCallAllowed env s p c = Inr True"
  shows "\<exists>b. boxes s (pluginsBox \<lparr>application = p, allowedCaller = c\<rparr>) = Some b \<and>
             24 \<le> length b \<and> btoi (take 8 (drop 16 b)) \<le> globals_round env"
proof -
  let ?k = "\<lparr>application = p, allowedCaller = c\<rparr>"
  from assms obtain b where b: "boxes s (pluginsBox ?k) = Some b"
    by (cases "boxes s (pluginsBox ?k)")
       (auto simp: pluginCallAllowed_def Let_def box_exists_def)
  have l0: "0 + 8 \<le> length b"
  proof (rule ccontr)
    assume "\<not> 0 + 8 \<le> length b"
    from box_uint64_short[OF b this] assms b show False
      by (simp add: pluginCallAllowed_def Let_def box_exists_def)
  qed
  note r0 = box_uint64_Some[OF b l0]
  from assms b r0 have lv: "globals_round env \<le> btoi (take 8 (drop 0 b))"
    by (auto simp: pluginCallAllowed_def Let_def box_exists_def split: if_splits)
  have l16: "16 + 8 \<le> length b"
  proof (rule ccontr)
    assume "\<not> 16 + 8 \<le> length b"
    from box_uint64_short[OF b this] assms b r0 lv show False
      by (simp add: pluginCallAllowed_def Let_def box_exists_def)
  qed
  note r16 = box_uint64_Some[OF b l16]
  from assms b r0 lv r16 have "\<not> globals_round env < btoi (take 8 (drop 16 b))"
    by (auto simp: pluginCallAllowed_def Let_def box_exists_def split: if_splits)
  with b l16 show ?thesis by (simp add: not_less)
qed

lemma pluginCallAllowed_TrueD_key:
  assumes "pluginCallAllowed env s (application k) (allowedCaller k) = Inr True"
  shows "\<exists>b. boxes s (pluginsBox k) = Some b \<and> 24 \<le> length b"
proof (cases k)
  case (fields p c)
  with assms pluginCallAllowed_TrueD[of env s p c] show ?thesis by auto
qed

lemma pluginCallAllowed_True_le:
  assumes "pluginCallAllowed env s p c = Inr True"
    and "plugins s \<lparr>application = p, allowedCaller = c\<rparr> = Some info"
  shows "lastCalled info \<le> globals_round env"
proof -
  from pluginCallAllowed_TrueD[OF assms(1)] obtain b where
    b: "boxes s (pluginsBox \<lparr>application = p, allowedCaller = c\<rparr>) = Some b"
    and le: "btoi (take 8 (drop 16 b)) \<le> globals_round env" by blast
  from plugins_SomeD[OF assms(2)] b have "info = decodePluginInfo b" by auto
  with le show ?thesis by (simp add: decodePluginInfo_def)
qed

lemma decode_stamped:
  assumes "25 \<le> length b"
  shows "decodePluginInfo (take 16 b @ itob r @ drop 24 b) =
           (decodePluginInfo b)\<lparr>lastCalled := r\<rparr>"
  using assms by (simp add: decodePluginInfo_def min_def drop_take)

lemma encode_stamped:
  "take 16 (encodePluginInfo i) @ itob r @ drop 24 (encodePluginInfo i) =
     encodePluginInfo (i\<lparr>lastCalled := r\<rparr>)"
  by (simp add: encodePluginInfo_def)

lemma stampedKey_active:
  assumes "pluginCallAllowed env s plugin zeroAddress = Inr True \<or>
           pluginCallAllowed env s plugin zeroAddress = Inr False \<and>
           pluginCallAllowed env s plugin (sender (txn env)) = Inr True"
  shows "pluginCallAllowed env s plugin (allowedCaller (stampedKey env s plugin)) = Inr True"
    and "application (stampedKey env s plugin) = plugin"
  using assms by (auto simp: stampedKey_def)

lemma rekeyToPlugin_unfold:
  assumes act: "pluginCallAllowed env s plugin zeroAddress = Inr True \<or>
           pluginCallAllowed env s plugin zeroAddress = Inr False \<and>
           pluginCallAllowed env s plugin (sender (txn env)) = Inr True"
  shows "arc58_rekeyToPlugin env s plugin =
     (case appAddress env plugin of
        None \<Rightarrow> Inl APP_DOES_NOT_EXIST
      | Some pluginAddress \<Rightarrow>
          (case sendPayment env s (controlledAddress s) pluginAddress of
             Inl e \<Rightarrow> Inl e
           | Inr s1 \<Rightarrow>
               (case box_replace s1 (pluginsBox (stampedKey env s plugin)) 16
                       (itob (globals_round env)) of
                  Inl e \<Rightarrow> Inl e
                | Inr s2 \<Rightarrow>
                    (case verifyRekeyToAbstractedAccount env s2 of
                       Inl e \<Rightarrow> Inl e
                     | Inr u \<Rightarrow> Inr s2))))"
  using act
proof
  assume w: "pluginCallAllowed env s plugin zeroAddress = Inr True"
  then have k: "stampedKey env s plugin = \<lparr>application = plugin, allowedCaller = zeroAddress\<rparr>"
    by (simp add: stampedKey_def)
  show ?thesis unfolding arc58_rekeyToPlugin_def k by (simp add: w)
next
  assume w: "pluginCallAllowed env s plugin zeroAddress = Inr False \<and>
           pluginCallAllowed env s plugin (sender (txn env)) = Inr True"
  then have k: "stampedKey env s plugin =
      \<lparr>application = plugin, allowedCaller = sender (txn env)\<rparr>"
    by (simp add: stampedKey_def)
  show ?thesis unfolding arc58_rekeyToPlugin_def k by (simp add: w)
qed

lemma rekeyToPlugin_denied:
  "pluginCallAllowed env s plugin zeroAddress = Inr False \<Longrightarrow>
   pluginCallAllowed env s plugin (sender (txn env)) = Inr False \<Longrightarrow>
   arc58_rekeyToPlugin env s plugin = Inl SENDER_NOT_ALLOWED_TO_CALL_PLUGIN"
  by (simp add: arc58_rekeyToPlugin_def)

lemma rekeyToPlugin_wildcard_error:
  "pluginCallAllowed env s plugin zeroAddress = Inl e \<Longrightarrow>
   arc58_rekeyToPlugin env s plugin = Inl e"
  by (simp add: arc58_rekeyToPlugin_def)

lemma rekeyToPlugin_active:
  assumes "arc58_rekeyToPlugin env s plugin = Inr s'"
  shows "pluginCallAllowed env s plugin zeroAddress = Inr True \<or>
         pluginCallAllowed env s plugin zeroAddress = Inr False \<and>
         pluginCallAllowed env s plugin (sender (txn env)) = Inr True"
proof (cases "pluginCallAllowed env s plugin zeroAddress")
  case (Inl e)
  with assms show ?thesis by (simp add: rekeyToPlugin_wildcard_error)
next
  case w: (Inr g)
  show ?thesis
  proof (cases g)
    case True
    with w show ?thesis by simp
  next
    case False
    show ?thesis
    proof (cases "pluginCallAllowed env s plugin (sender (txn env))")
      case (Inl e)
      with assms w False show ?thesis by (simp add: arc58_rekeyToPlugin_def)
    next
      case c: (Inr a)
      show ?thesis
      proof (cases a)
        case True
        with w False c show ?thesis by simp
      next
        case fa: False
        with assms w False c show ?thesis by (simp add: arc58_rekeyToPlugin_def)
      qed
    qed
  qed
qed

lemma rekeyToPlugin_Inr:
  assumes "arc58_rekeyToPlugin env s plugin = Inr s'"
  shows "\<exists>a b. appAddress env plugin = Some a \<and>
           boxes s (pluginsBox (stampedKey env s plugin)) = Some b \<and> 24 \<le> length b \<and>
           boxes s' = (boxes s)(pluginsBox (stampedKey env s plugin) \<mapsto>
                         take 16 b @ itob (globals_round env) @ drop 24 b)"
proof -
  note act = rekeyToPlugin_active[OF assms]
  note u = rekeyToPlugin_unfold[OF act]
  from assms u obtain a where a: "appAddress env plugin = Some a"
    by (cases "appAddress env plugin") auto
  from assms u a obtain s1 where
    p: "sendPayment env s (controlledAddress s) a = Inr s1"
    by (cases "sendPayment env s (controlledAddress s) a") auto
  from assms u a p obtain s2 where
    r: "box_replace s1 (pluginsBox (stampedKey env s plugin)) 16 (itob (globals_round env)) = Inr s2"
    by (cases "box_replace s1 (pluginsBox (stampedKey env s plugin)) 16 (itob (globals_round env))")
       auto
  from assms u a p r have e: "s' = s2"
    by (cases "verifyRekeyToAbstractedAccount env s2") auto
  from sendPayment_boxes[OF p] have b1: "boxes s1 = boxes s" .
  from r b1 obtain b where
    b: "boxes s (pluginsBox (stampedKey env s plugin)) = Some b" and l: "16 + 8 \<le> length b"
    and s2: "boxes s2 = (boxes s)(pluginsBox (stampedKey env s plugin) \<mapsto>
                         take 16 b @ itob (globals_round env) @ drop 24 b)"
    by (cases "boxes s (pluginsBox (stampedKey env s plugin))")
       (auto simp: box_replace_def split: if_splits)
  from a b l s2 e show ?thesis by simp
qed

lemma rekeyToPlugin_succeeds:
  assumes act: "pluginCallAllowed env s plugin zeroAddress = Inr True \<or>
          pluginCallAllowed env s plugin zeroAddress = Inr False \<and>
          pluginCallAllowed env s plugin (sender (txn env)) = Inr True"
    and app: "appAddress env plugin = Some a"
    and pay: "signer s (controlledAddress s) = globals_currentApplicationAddress env"
    and ret: "\<exists>i. groupIndex env \<le> i \<and> i < length (txnGroup env) \<and>
             (explicitRekeyBack s (txnGroup env ! i) \<or> verifyAuthAddrCall env (txnGroup env ! i))"
  shows "\<exists>s'. arc58_rekeyToPlugin env s plugin = Inr s'"
proof -
  from pay have "\<exists>s1. sendPayment env s (controlledAddress s) a = Inr s1"
    by (auto simp: sendPayment_def)
  then obtain s1 where
    p: "sendPayment env s (controlledAddress s) a = Inr s1" ..
  have b1: "boxes s1 = boxes s" using sendPayment_boxes[OF p] .
  have c1: "controlledAddress s1 = controlledAddress s"
    using sendPayment_controlledAddress[OF p] .
  from stampedKey_active[OF act]
  have "pluginCallAllowed env s (application (stampedKey env s plugin))
          (allowedCaller (stampedKey env s plugin)) = Inr True" by simp
  from pluginCallAllowed_TrueD_key[OF this] b1 obtain b where
    b: "boxes s1 (pluginsBox (stampedKey env s plugin)) = Some b" and l: "24 \<le> length b"
    by auto
  then obtain s2 where
    r: "box_replace s1 (pluginsBox (stampedKey env s plugin)) 16 (itob (globals_round env)) = Inr s2"
    by (simp add: box_replace_def)
  have "controlledAddress s2 = controlledAddress s"
    using box_replace_controlledAddress[OF r] c1 by simp
  from verify_passes[OF ret this] have v: "verifyRekeyToAbstractedAccount env s2 = Inr ()" .
  show ?thesis
    by (simp add: rekeyToPlugin_unfold[OF act] app p r v)
qed

text \<open>
  C3, as amended. \<open>arc58_rekeyToPlugin\<close> evaluates the wildcard grant first and the
  sender's grant only when the wildcard grant is inactive. When one of them is active, the
  plugin application exists, the application is the one authorised to sign for the
  controlled address, and the group has a return step at or after the call, the call
  succeeds. Every success has an active grant, and stamps \<open>lastCalled\<close> of exactly the
  first active one (the wildcard grant if active, the sender's otherwise) with the current
  round, all other grants being unchanged. When neither grant is active the call fails with
  \<open>SENDER_NOT_ALLOWED_TO_CALL_PLUGIN\<close>; an error of the wildcard test is the call's error.
\<close>

theorem rekeyToPlugin_wildcard_first:
  "((pluginCallAllowed env s plugin zeroAddress = Inr True \<or>
     pluginCallAllowed env s plugin zeroAddress = Inr False \<and>
     pluginCallAllowed env s plugin (sender (txn env)) = Inr True) \<and>
    appAddress env plugin \<noteq> None \<and>
    signer s (controlledAddress s) = globals_currentApplicationAddress env \<and>
    (\<exists>i. groupIndex env \<le> i \<and> i < length (txnGroup env) \<and>
       (explicitRekeyBack s (txnGroup env ! i) \<or> verifyAuthAddrCall env (txnGroup env ! i)))
    \<longrightarrow> (\<exists>s'. arc58_rekeyToPlugin env s plugin = Inr s')) \<and>
   (\<forall>s'. arc58_rekeyToPlugin env s plugin = Inr s' \<longrightarrow>
      (pluginCallAllowed env s plugin zeroAddress = Inr True \<or>
       pluginCallAllowed env s plugin zeroAddress = Inr False \<and>
       pluginCallAllowed env s plugin (sender (txn env)) = Inr True) \<and>
      (\<exists>b. boxes s (pluginsBox (stampedKey env s plugin)) = Some b \<and>
           boxes s' = (boxes s)(pluginsBox (stampedKey env s plugin) \<mapsto>
                         take 16 b @ itob (globals_round env) @ drop 24 b)) \<and>
      (\<forall>info. plugins s (stampedKey env s plugin) = Some info \<longrightarrow>
           plugins s' (stampedKey env s plugin) =
             Some (info\<lparr>lastCalled := globals_round env\<rparr>)) \<and>
      (\<forall>k. k \<noteq> stampedKey env s plugin \<longrightarrow> plugins s' k = plugins s k)) \<and>
   (pluginCallAllowed env s plugin zeroAddress = Inr False \<and>
    pluginCallAllowed env s plugin (sender (txn env)) = Inr False \<longrightarrow>
      arc58_rekeyToPlugin env s plugin = Inl SENDER_NOT_ALLOWED_TO_CALL_PLUGIN) \<and>
   (\<forall>e. pluginCallAllowed env s plugin zeroAddress = Inl e \<longrightarrow>
      arc58_rekeyToPlugin env s plugin = Inl e)"
proof -
  have A: "(pluginCallAllowed env s plugin zeroAddress = Inr True \<or>
     pluginCallAllowed env s plugin zeroAddress = Inr False \<and>
     pluginCallAllowed env s plugin (sender (txn env)) = Inr True) \<and>
    appAddress env plugin \<noteq> None \<and>
    signer s (controlledAddress s) = globals_currentApplicationAddress env \<and>
    (\<exists>i. groupIndex env \<le> i \<and> i < length (txnGroup env) \<and>
       (explicitRekeyBack s (txnGroup env ! i) \<or> verifyAuthAddrCall env (txnGroup env ! i)))
    \<longrightarrow> (\<exists>s'. arc58_rekeyToPlugin env s plugin = Inr s')"
    using rekeyToPlugin_succeeds[of env s plugin] by blast
  have B: "\<forall>s'. arc58_rekeyToPlugin env s plugin = Inr s' \<longrightarrow>
      (pluginCallAllowed env s plugin zeroAddress = Inr True \<or>
       pluginCallAllowed env s plugin zeroAddress = Inr False \<and>
       pluginCallAllowed env s plugin (sender (txn env)) = Inr True) \<and>
      (\<exists>b. boxes s (pluginsBox (stampedKey env s plugin)) = Some b \<and>
           boxes s' = (boxes s)(pluginsBox (stampedKey env s plugin) \<mapsto>
                         take 16 b @ itob (globals_round env) @ drop 24 b)) \<and>
      (\<forall>info. plugins s (stampedKey env s plugin) = Some info \<longrightarrow>
           plugins s' (stampedKey env s plugin) =
             Some (info\<lparr>lastCalled := globals_round env\<rparr>)) \<and>
      (\<forall>k. k \<noteq> stampedKey env s plugin \<longrightarrow> plugins s' k = plugins s k)"
  proof (intro allI impI)
    fix s' assume ok: "arc58_rekeyToPlugin env s plugin = Inr s'"
    from rekeyToPlugin_Inr[OF ok] obtain b where
      b: "boxes s (pluginsBox (stampedKey env s plugin)) = Some b"
      and s': "boxes s' = (boxes s)(pluginsBox (stampedKey env s plugin) \<mapsto>
                         take 16 b @ itob (globals_round env) @ drop 24 b)" by blast
    have v: "\<forall>info. plugins s (stampedKey env s plugin) = Some info \<longrightarrow>
           plugins s' (stampedKey env s plugin) =
             Some (info\<lparr>lastCalled := globals_round env\<rparr>)"
    proof (intro allI impI)
      fix info assume i: "plugins s (stampedKey env s plugin) = Some info"
      from plugins_SomeD[OF i] b have l: "25 \<le> length b" and d: "info = decodePluginInfo b"
        by auto
      from l s' show "plugins s' (stampedKey env s plugin) =
             Some (info\<lparr>lastCalled := globals_round env\<rparr>)"
        by (simp add: plugins_def decode_stamped d)
    qed
    have o: "\<forall>k. k \<noteq> stampedKey env s plugin \<longrightarrow> plugins s' k = plugins s k"
      using s' by (simp add: plugins_def)
    from rekeyToPlugin_active[OF ok] b s' v o
    show "(pluginCallAllowed env s plugin zeroAddress = Inr True \<or>
       pluginCallAllowed env s plugin zeroAddress = Inr False \<and>
       pluginCallAllowed env s plugin (sender (txn env)) = Inr True) \<and>
      (\<exists>b. boxes s (pluginsBox (stampedKey env s plugin)) = Some b \<and>
           boxes s' = (boxes s)(pluginsBox (stampedKey env s plugin) \<mapsto>
                         take 16 b @ itob (globals_round env) @ drop 24 b)) \<and>
      (\<forall>info. plugins s (stampedKey env s plugin) = Some info \<longrightarrow>
           plugins s' (stampedKey env s plugin) =
             Some (info\<lparr>lastCalled := globals_round env\<rparr>)) \<and>
      (\<forall>k. k \<noteq> stampedKey env s plugin \<longrightarrow> plugins s' k = plugins s k)"
      by (intro conjI) blast+
  qed
  have C: "pluginCallAllowed env s plugin zeroAddress = Inr False \<and>
    pluginCallAllowed env s plugin (sender (txn env)) = Inr False \<longrightarrow>
      arc58_rekeyToPlugin env s plugin = Inl SENDER_NOT_ALLOWED_TO_CALL_PLUGIN"
    using rekeyToPlugin_denied by blast
  have D: "\<forall>e. pluginCallAllowed env s plugin zeroAddress = Inl e \<longrightarrow>
      arc58_rekeyToPlugin env s plugin = Inl e"
    using rekeyToPlugin_wildcard_error by blast
  from A B C D show ?thesis by (intro conjI)
qed

lemma demo_return_present:
  "\<exists>i. groupIndex (demoEnv a r [demoVerify b]) \<le> i \<and>
       i < length (txnGroup (demoEnv a r [demoVerify b])) \<and>
       (explicitRekeyBack s (txnGroup (demoEnv a r [demoVerify b]) ! i) \<or>
        verifyAuthAddrCall (demoEnv a r [demoVerify b]) (txnGroup (demoEnv a r [demoVerify b]) ! i))"
  by (rule exI[of _ 1])
     (simp add: groupIndex_def txnGroup_def demoEnv_def verifyAuthAddrCall_def demoVerify_def)

lemma demo_verify_passes:
  "verifyRekeyToAbstractedAccount (demoEnv a r [demoVerify b]) s = Inr ()"
  using demo_return_present[of a r b s]
  by (simp add: verifyRekeyToAbstractedAccount_def rekeyedBack_from_iff)

lemma demo_verify_fails:
  "a \<noteq> controlledAddress s \<Longrightarrow>
     verifyRekeyToAbstractedAccount (demoEnv a r []) s = Inl ASSERT_FAILED"
  using demo_no_return[of a s r]
  by (simp add: verifyRekeyToAbstractedAccount_def rekeyedBack_from_iff)

lemma demo_verify_fails_pay:
  "a \<noteq> controlledAddress s \<Longrightarrow>
     verifyRekeyToAbstractedAccount (demoEnv a r [demoPay a zeroAddress]) s = Inl ASSERT_FAILED"
  by (simp add: verifyRekeyToAbstractedAccount_def rekeyedBack_from_iff groupIndex_def
      txnGroup_def demoEnv_def explicitRekeyBack_def verifyAuthAddrCall_def demoCall_def
      demoPay_def nth_Cons split: nat.splits)

lemma demo_wildcard_active:
  "pluginCallAllowed (demoEnv a 3 after) (grantState 1000 0 0) 7 zeroAddress = Inr True"
  using pluginCallAllowed_stored[of "grantState 1000 0 0" 7 zeroAddress "grant 1000 0 0 0"
        "demoEnv a 3 after"]
  by (simp add: wildcardKey_def[symmetric])

lemma demo_stampedKey:
  "stampedKey (demoEnv a 3 after) (grantState 1000 0 0) 7 = wildcardKey 7"
  by (simp add: stampedKey_def demo_wildcard_active wildcardKey_def)

lemma demo_payment:
  "sendPayment (demoEnv a r after) (grantState lv cd lc) 1100 1007 =
     Inr ((grantState lv cd lc)\<lparr>authAddr := (\<lambda>a. 0)(1100 := 1007)\<rparr>)"
  by (simp add: sendPayment_def signer_def grantState_def demoState_def zeroAddress_def)

lemma demo_stamp:
  "box_replace ((grantState 1000 0 0)\<lparr>authAddr := (\<lambda>a. 0)(1100 := 1007)\<rparr>)
     (pluginsBox (wildcardKey 7)) 16 (itob 3) = Inr (delegatedState 0)"
proof -
  have "take 16 (encodePluginInfo (grant 1000 0 0 0)) @ itob 3 @
          drop 24 (encodePluginInfo (grant 1000 0 0 0)) = encodePluginInfo (grant 1000 0 3 0)"
    by (simp add: encode_stamped grant_def)
  then show ?thesis
    by (simp add: box_replace_def grantState_def delegatedState_def demoState_def)
qed

lemma demo_wildcard_delegation:
  "arc58_rekeyToPlugin (demoEnv 2 3 [demoVerify 2]) (grantState 1000 0 0) 7 =
     Inr (delegatedState 0)"
proof -
  have act: "pluginCallAllowed (demoEnv 2 3 [demoVerify 2]) (grantState 1000 0 0) 7 zeroAddress =
        Inr True \<or>
      pluginCallAllowed (demoEnv 2 3 [demoVerify 2]) (grantState 1000 0 0) 7 zeroAddress =
        Inr False \<and>
      pluginCallAllowed (demoEnv 2 3 [demoVerify 2]) (grantState 1000 0 0) 7
        (sender (txn (demoEnv 2 3 [demoVerify 2]))) = Inr True"
    using demo_wildcard_active by blast
  show ?thesis
    by (simp add: rekeyToPlugin_unfold[OF act] demo_stampedKey demo_payment demo_stamp
        demo_verify_passes)
qed

lemma demo_wildcard_no_return:
  "arc58_rekeyToPlugin (demoEnv 2 3 []) (grantState 1000 0 0) 7 = Inl ASSERT_FAILED"
proof -
  have act: "pluginCallAllowed (demoEnv 2 3 []) (grantState 1000 0 0) 7 zeroAddress =
        Inr True \<or>
      pluginCallAllowed (demoEnv 2 3 []) (grantState 1000 0 0) 7 zeroAddress =
        Inr False \<and>
      pluginCallAllowed (demoEnv 2 3 []) (grantState 1000 0 0) 7
        (sender (txn (demoEnv 2 3 []))) = Inr True"
    using demo_wildcard_active by blast
  have v: "verifyRekeyToAbstractedAccount (demoEnv 2 3 []) (delegatedState 0) = Inl ASSERT_FAILED"
    by (rule demo_verify_fails) simp
  show ?thesis
    by (simp add: rekeyToPlugin_unfold[OF act] demo_stampedKey demo_payment demo_stamp v)
qed

lemma demo_wildcard_pay_only:
  "arc58_rekeyToPlugin (demoEnv 2 3 [demoPay 2 zeroAddress]) (grantState 1000 0 0) 7 =
     Inl ASSERT_FAILED"
proof -
  have act: "pluginCallAllowed (demoEnv 2 3 [demoPay 2 zeroAddress]) (grantState 1000 0 0) 7
        zeroAddress = Inr True \<or>
      pluginCallAllowed (demoEnv 2 3 [demoPay 2 zeroAddress]) (grantState 1000 0 0) 7
        zeroAddress = Inr False \<and>
      pluginCallAllowed (demoEnv 2 3 [demoPay 2 zeroAddress]) (grantState 1000 0 0) 7
        (sender (txn (demoEnv 2 3 [demoPay 2 zeroAddress]))) = Inr True"
    using demo_wildcard_active by blast
  have v: "verifyRekeyToAbstractedAccount (demoEnv 2 3 [demoPay 2 zeroAddress])
             (delegatedState 0) = Inl ASSERT_FAILED"
    by (rule demo_verify_fails_pay) simp
  show ?thesis
    by (simp add: rekeyToPlugin_unfold[OF act] demo_stampedKey demo_payment demo_stamp v)
qed

text \<open>
  Address 2 calls \<open>arc58_rekeyToPlugin\<close> for plugin 7, whose wildcard grant is active, in a
  group that ends with the call.
\<close>

theorem delegation_without_return_fails_witness:
  "\<not> (\<exists>i. groupIndex (demoEnv 2 3 []) \<le> i \<and> i < length (txnGroup (demoEnv 2 3 [])) \<and>
       (explicitRekeyBack (grantState 1000 0 0) (txnGroup (demoEnv 2 3 []) ! i) \<or>
        verifyAuthAddrCall (demoEnv 2 3 []) (txnGroup (demoEnv 2 3 []) ! i))) \<and>
   arc58_rekeyToPlugin (demoEnv 2 3 []) (grantState 1000 0 0) 7 = Inl ASSERT_FAILED \<and>
   persisted (grantState 1000 0 0)
     (arc58_rekeyToPlugin (demoEnv 2 3 []) (grantState 1000 0 0) 7) = grantState 1000 0 0"
proof -
  have h: "\<not> (\<exists>i. groupIndex (demoEnv 2 3 []) \<le> i \<and> i < length (txnGroup (demoEnv 2 3 [])) \<and>
       (explicitRekeyBack (grantState 1000 0 0) (txnGroup (demoEnv 2 3 []) ! i) \<or>
        verifyAuthAddrCall (demoEnv 2 3 []) (txnGroup (demoEnv 2 3 []) ! i)))"
    by (rule demo_no_return) simp
  then have h': "\<forall>i. groupIndex (demoEnv 2 3 []) \<le> i \<and> i < length (txnGroup (demoEnv 2 3 [])) \<longrightarrow>
       \<not> explicitRekeyBack (grantState 1000 0 0) (txnGroup (demoEnv 2 3 []) ! i) \<and>
       \<not> verifyAuthAddrCall (demoEnv 2 3 []) (txnGroup (demoEnv 2 3 []) ! i)"
    by blast
  note t = delegation_without_return_fails[OF h', of 7 nameX 0]
  from h demo_wildcard_no_return t[THEN conjunct2, THEN conjunct1] show ?thesis by simp
qed

lemma demo_ghost:
  "pluginCallAllowed (demoEnv 2 3 [demoVerify 2]) ghostState 9 zeroAddress = Inr True"
  "arc58_rekeyToPlugin (demoEnv 2 3 [demoVerify 2]) ghostState 9 = Inl APP_DOES_NOT_EXIST"
proof -
  let ?env = "demoEnv 2 3 [demoVerify 2]"
  have g: "plugins ghostState \<lparr>application = 9, allowedCaller = zeroAddress\<rparr> =
      Some (grant 1000 0 0 0)"
    by (rule plugins_encoded) (simp add: ghostState_def wildcardKey_def)
  show w: "pluginCallAllowed ?env ghostState 9 zeroAddress = Inr True"
    by (simp add: pluginCallAllowed_stored[OF g])
  then have act: "pluginCallAllowed ?env ghostState 9 zeroAddress = Inr True \<or>
      pluginCallAllowed ?env ghostState 9 zeroAddress = Inr False \<and>
      pluginCallAllowed ?env ghostState 9 (sender (txn ?env)) = Inr True" by blast
  have "appAddress ?env 9 = None" by (simp add: demoEnv_def demoAppAddress_def)
  then show "arc58_rekeyToPlugin ?env ghostState 9 = Inl APP_DOES_NOT_EXIST"
    by (simp add: rekeyToPlugin_unfold[OF act])
qed

lemma demo_rekeyed_away:
  "pluginCallAllowed (demoEnv 2 3 [demoVerify 2]) (delegatedState 0) 7 zeroAddress = Inr True"
  "arc58_rekeyToPlugin (demoEnv 2 3 [demoVerify 2]) (delegatedState 0) 7 = Inl INNER_TXN_REJECTED"
proof -
  let ?env = "demoEnv 2 3 [demoVerify 2]"
  have g: "plugins (delegatedState 0) \<lparr>application = 7, allowedCaller = zeroAddress\<rparr> =
      Some (grant 1000 0 3 0)"
    using demo_plugins(2)[of 0] by (simp add: wildcardKey_def)
  show w: "pluginCallAllowed ?env (delegatedState 0) 7 zeroAddress = Inr True"
    by (simp add: pluginCallAllowed_stored[OF g])
  then have act: "pluginCallAllowed ?env (delegatedState 0) 7 zeroAddress = Inr True \<or>
      pluginCallAllowed ?env (delegatedState 0) 7 zeroAddress = Inr False \<and>
      pluginCallAllowed ?env (delegatedState 0) 7 (sender (txn ?env)) = Inr True" by blast
  have "sendPayment ?env (delegatedState 0) 1100 1007 = Inl INNER_TXN_REJECTED"
    by (simp add: sendPayment_def signer_def delegatedState_def demoState_def zeroAddress_def)
  then show "arc58_rekeyToPlugin ?env (delegatedState 0) 7 = Inl INNER_TXN_REJECTED"
    by (simp add: rekeyToPlugin_unfold[OF act])
qed

text \<open>
  The claim as stated fails: with an active wildcard grant the call still fails when the
  group has no return step after the call (only a payment of address 2), when the plugin
  application does not exist (application 9), and when the application cannot sign for
  the controlled address (plugin 7 holds it).
\<close>

theorem rekeyToPlugin_wildcard_first_counterexample:
  "pluginCallAllowed (demoEnv 2 3 [demoPay 2 zeroAddress]) (grantState 1000 0 0) 7 zeroAddress =
     Inr True \<and>
   arc58_rekeyToPlugin (demoEnv 2 3 [demoPay 2 zeroAddress]) (grantState 1000 0 0) 7 =
     Inl ASSERT_FAILED \<and>
   pluginCallAllowed (demoEnv 2 3 [demoVerify 2]) ghostState 9 zeroAddress = Inr True \<and>
   arc58_rekeyToPlugin (demoEnv 2 3 [demoVerify 2]) ghostState 9 = Inl APP_DOES_NOT_EXIST \<and>
   pluginCallAllowed (demoEnv 2 3 [demoVerify 2]) (delegatedState 0) 7 zeroAddress = Inr True \<and>
   arc58_rekeyToPlugin (demoEnv 2 3 [demoVerify 2]) (delegatedState 0) 7 =
     Inl INNER_TXN_REJECTED"
  using demo_wildcard_active demo_wildcard_pay_only demo_ghost demo_rekeyed_away by simp

lemma demo_caller_delegation:
  "arc58_rekeyToPlugin (demoEnv 2 3 [demoVerify 2]) callerGrantState 7 =
     Inr (demoState\<lparr>boxes := [pluginsBox (callerKey 7 2) \<mapsto> encodePluginInfo (grant 1000 0 3 0)],
       authAddr := (\<lambda>a. 0)(1100 := 1007)\<rparr>)"
proof -
  let ?env = "demoEnv 2 3 [demoVerify 2]"
  have w: "pluginCallAllowed ?env callerGrantState 7 zeroAddress = Inr False"
    by (rule pluginCallAllowed_absent)
       (simp add: pluginsExists_def callerGrantState_def callerKey_def zeroAddress_def)
  have c: "pluginCallAllowed ?env callerGrantState 7 2 = Inr True"
    using pluginCallAllowed_stored[of callerGrantState 7 2 "grant 1000 0 0 0" ?env]
    by (simp add: callerKey_def[symmetric])
  have act: "pluginCallAllowed ?env callerGrantState 7 zeroAddress = Inr True \<or>
      pluginCallAllowed ?env callerGrantState 7 zeroAddress = Inr False \<and>
      pluginCallAllowed ?env callerGrantState 7 (sender (txn ?env)) = Inr True"
    using w c by simp
  have k: "stampedKey ?env callerGrantState 7 = callerKey 7 2"
    by (simp add: stampedKey_def w callerKey_def)
  have p: "sendPayment ?env callerGrantState 1100 1007 =
     Inr (callerGrantState\<lparr>authAddr := (\<lambda>a. 0)(1100 := 1007)\<rparr>)"
    by (simp add: sendPayment_def signer_def callerGrantState_def demoState_def zeroAddress_def)
  have e: "take 16 (encodePluginInfo (grant 1000 0 0 0)) @ itob 3 @
          drop 24 (encodePluginInfo (grant 1000 0 0 0)) = encodePluginInfo (grant 1000 0 3 0)"
    by (simp add: encode_stamped grant_def)
  have r: "box_replace (callerGrantState\<lparr>authAddr := (\<lambda>a. 0)(1100 := 1007)\<rparr>)
     (pluginsBox (callerKey 7 2)) 16 (itob 3) =
     Inr (demoState\<lparr>boxes := [pluginsBox (callerKey 7 2) \<mapsto> encodePluginInfo (grant 1000 0 3 0)],
       authAddr := (\<lambda>a. 0)(1100 := 1007)\<rparr>)"
    using e by (simp add: box_replace_def callerGrantState_def demoState_def)
  show ?thesis
    by (simp add: rekeyToPlugin_unfold[OF act] k p r demo_verify_passes)
qed

text \<open>
  Address 2 delegates to plugin 7 in a group that ends with \<open>arc58_verifyAuthAddr\<close>: through
  the wildcard grant when there is no grant of its own, through its own grant when there is
  no wildcard grant, and not at all without a grant or for a plugin without one.
\<close>

theorem rekeyToPlugin_wildcard_first_witness:
  "pluginCallAllowed (demoEnv 2 3 [demoVerify 2]) (grantState 1000 0 0) 7 zeroAddress = Inr True \<and>
   appAddress (demoEnv 2 3 [demoVerify 2]) 7 = Some 1007 \<and>
   signer (grantState 1000 0 0) (controlledAddress (grantState 1000 0 0)) =
     globals_currentApplicationAddress (demoEnv 2 3 [demoVerify 2]) \<and>
   (\<exists>i. groupIndex (demoEnv 2 3 [demoVerify 2]) \<le> i \<and>
       i < length (txnGroup (demoEnv 2 3 [demoVerify 2])) \<and>
       (explicitRekeyBack (grantState 1000 0 0) (txnGroup (demoEnv 2 3 [demoVerify 2]) ! i) \<or>
        verifyAuthAddrCall (demoEnv 2 3 [demoVerify 2])
          (txnGroup (demoEnv 2 3 [demoVerify 2]) ! i))) \<and>
   arc58_rekeyToPlugin (demoEnv 2 3 [demoVerify 2]) (grantState 1000 0 0) 7 =
     Inr (delegatedState 0) \<and>
   plugins (grantState 1000 0 0) (callerKey 7 2) = None \<and>
   plugins (grantState 1000 0 0) (wildcardKey 7) = Some (grant 1000 0 0 0) \<and>
   plugins (delegatedState 0) (wildcardKey 7) = Some (grant 1000 0 3 0) \<and>
   arc58_rekeyToPlugin (demoEnv 2 3 [demoVerify 2]) callerGrantState 7 =
     Inr (demoState\<lparr>boxes := [pluginsBox (callerKey 7 2) \<mapsto> encodePluginInfo (grant 1000 0 3 0)],
       authAddr := (\<lambda>a. 0)(1100 := 1007)\<rparr>) \<and>
   arc58_rekeyToPlugin (demoEnv 2 3 [demoVerify 2]) demoState 7 =
     Inl SENDER_NOT_ALLOWED_TO_CALL_PLUGIN \<and>
   arc58_rekeyToPlugin (demoEnv 2 3 [demoVerify 2]) (grantState 1000 0 0) 8 =
     Inl SENDER_NOT_ALLOWED_TO_CALL_PLUGIN"
proof -
  let ?env = "demoEnv 2 3 [demoVerify 2]"
  let ?s = "grantState 1000 0 0"
  have n: "pluginCallAllowed ?env demoState 7 c = Inr False" for c
    by (rule pluginCallAllowed_absent) (simp add: pluginsExists_def demoState_def)
  have n8: "pluginCallAllowed ?env ?s 8 c = Inr False" for c
    by (rule pluginCallAllowed_absent)
       (simp add: pluginsExists_def grantState_def demoState_def wildcardKey_def)
  have p: "plugins ?s (callerKey 7 2) = None"
    by (simp add: plugins_def grantState_def demoState_def callerKey_def wildcardKey_def
        zeroAddress_def)
  have w: "pluginCallAllowed ?env ?s 7 zeroAddress = Inr True" by (rule demo_wildcard_active)
  have sg: "signer ?s (controlledAddress ?s) = globals_currentApplicationAddress ?env"
    by (simp add: signer_def grantState_def demoState_def zeroAddress_def)
  have rt: "\<exists>i. groupIndex ?env \<le> i \<and> i < length (txnGroup ?env) \<and>
       (explicitRekeyBack ?s (txnGroup ?env ! i) \<or> verifyAuthAddrCall ?env (txnGroup ?env ! i))"
    by (rule demo_return_present)
  note tw = rekeyToPlugin_wildcard_first[of ?env ?s 7]
  from tw[THEN conjunct1] w sg rt have ex: "\<exists>s'. arc58_rekeyToPlugin ?env ?s 7 = Inr s'"
    by simp
  from tw[THEN conjunct2, THEN conjunct1, rule_format, OF demo_wildcard_delegation]
  have "\<forall>info. plugins ?s (stampedKey ?env ?s 7) = Some info \<longrightarrow>
           plugins (delegatedState 0) (stampedKey ?env ?s 7) =
             Some (info\<lparr>lastCalled := globals_round ?env\<rparr>)"
    by (elim conjE)
  then have st: "plugins (delegatedState 0) (wildcardKey 7) = Some (grant 1000 0 3 0)"
    by (simp add: demo_stampedKey)
  note t = rekeyToPlugin_wildcard_first[of ?env demoState 7]
  note t8 = rekeyToPlugin_wildcard_first[of ?env ?s 8]
  from t[THEN conjunct2, THEN conjunct2, THEN conjunct1] n
  have d: "arc58_rekeyToPlugin ?env demoState 7 = Inl SENDER_NOT_ALLOWED_TO_CALL_PLUGIN"
    by simp
  from t8[THEN conjunct2, THEN conjunct2, THEN conjunct1] n8
  have d8: "arc58_rekeyToPlugin ?env ?s 8 = Inl SENDER_NOT_ALLOWED_TO_CALL_PLUGIN"
    by simp
  from w sg rt ex st demo_wildcard_delegation demo_caller_delegation p d d8 show ?thesis
    by simp
qed

subsection \<open>Changing the admin through a plugin\<close>

lemma box_uint8_stored:
  assumes "plugins s k = Some info"
  shows "box_uint8 s (pluginsBox k) 24 = Inr (adminPrivileges info)"
proof -
  from plugins_SomeD[OF assms] obtain b where
    b: "boxes s (pluginsBox k) = Some b" and l: "25 \<le> length b"
    and i: "info = decodePluginInfo b" by blast
  from l have "drop 24 b \<noteq> []" by simp
  then have "hd (take 1 (drop 24 b)) = hd (drop 24 b)"
    by (cases "drop 24 b") simp_all
  with b l i show ?thesis
    by (simp add: box_uint8_def box_extract_def decodePluginInfo_def)
qed

lemma box_uint8_short:
  assumes "boxes s (pluginsBox k) = Some b" and "plugins s k = None"
  shows "box_uint8 s (pluginsBox k) 24 = Inl BOX_OUT_OF_RANGE"
  using assms by (simp add: box_uint8_def box_extract_def plugins_def split: if_splits)

lemma pluginChangeAdmin_ok:
  assumes "Some (sender (txn env)) = appAddress env plugin"
    and "Some (authAddr s (controlledAddress s)) = appAddress env plugin"
    and "plugins s \<lparr>application = plugin, allowedCaller = caller\<rparr> = Some info"
    and "adminPrivileges info \<noteq> 0"
  shows "arc58_pluginChangeAdmin env s plugin caller newAdmin = Inr (s\<lparr>admin := newAdmin\<rparr>)"
proof -
  from assms(1) have a: "appAddress env plugin = Some (sender (txn env))" by simp
  from assms(2) a have c: "authAddr s (controlledAddress s) = sender (txn env)" by simp
  from plugins_SomeD[OF assms(3)] have
    e: "boxes s (pluginsBox \<lparr>application = plugin, allowedCaller = caller\<rparr>) \<noteq> None" by auto
  show ?thesis
    unfolding arc58_pluginChangeAdmin_def Let_def
    using e assms(4) by (simp add: a c box_exists_def box_uint8_stored[OF assms(3)])
qed

lemma pluginChangeAdmin_Inr:
  assumes "arc58_pluginChangeAdmin env s plugin caller newAdmin = Inr s'"
  shows "Some (sender (txn env)) = appAddress env plugin \<and>
         Some (authAddr s (controlledAddress s)) = appAddress env plugin \<and>
         (\<exists>info. plugins s \<lparr>application = plugin, allowedCaller = caller\<rparr> = Some info \<and>
                 adminPrivileges info \<noteq> 0)"
proof -
  let ?k = "\<lparr>application = plugin, allowedCaller = caller\<rparr>"
  from assms obtain a where a: "appAddress env plugin = Some a"
    by (cases "appAddress env plugin") (auto simp: arc58_pluginChangeAdmin_def)
  from assms a have s: "sender (txn env) = a"
    by (auto simp: arc58_pluginChangeAdmin_def split: if_splits)
  from assms a s have c: "authAddr s (controlledAddress s) = a"
    by (auto simp: arc58_pluginChangeAdmin_def split: if_splits)
  from assms a s c obtain b where b: "boxes s (pluginsBox ?k) = Some b"
    by (cases "boxes s (pluginsBox ?k)")
       (auto simp: arc58_pluginChangeAdmin_def Let_def box_exists_def)
  have "\<exists>info. plugins s ?k = Some info"
  proof (rule ccontr)
    assume "\<not> (\<exists>info. plugins s ?k = Some info)"
    then have "plugins s ?k = None" by simp
    from box_uint8_short[OF b this] assms a s c b show False
      by (simp add: arc58_pluginChangeAdmin_def Let_def box_exists_def)
  qed
  then obtain info where i: "plugins s ?k = Some info" ..
  from assms a s c b box_uint8_stored[OF i] have "adminPrivileges info \<noteq> 0"
    by (auto simp: arc58_pluginChangeAdmin_def Let_def box_exists_def split: if_splits)
  with a s c i show ?thesis by auto
qed

text \<open>
  C2. \<open>arc58_pluginChangeAdmin\<close> succeeds, and then only overwrites the admin with
  \<open>newAdmin\<close>, when the sender is the plugin application's address, the auth address of the
  controlled address is that address too, and the grant under (plugin, allowedCaller) exists
  with \<open>adminPrivileges\<close> set. In every other case it fails and the state is unchanged; in
  particular it fails for a grant that is active (unexpired, out of its cooldown) but has
  no admin privilege.
\<close>

theorem pluginChangeAdmin_succeeds_iff:
  "(Some (sender (txn env)) = appAddress env plugin \<and>
    Some (authAddr s (controlledAddress s)) = appAddress env plugin \<and>
    (\<exists>info. plugins s \<lparr>application = plugin, allowedCaller = caller\<rparr> = Some info \<and>
            adminPrivileges info \<noteq> 0) \<longrightarrow>
      arc58_pluginChangeAdmin env s plugin caller newAdmin = Inr (s\<lparr>admin := newAdmin\<rparr>)) \<and>
   (\<not> (Some (sender (txn env)) = appAddress env plugin \<and>
       Some (authAddr s (controlledAddress s)) = appAddress env plugin \<and>
       (\<exists>info. plugins s \<lparr>application = plugin, allowedCaller = caller\<rparr> = Some info \<and>
            adminPrivileges info \<noteq> 0)) \<longrightarrow>
      (\<exists>e. arc58_pluginChangeAdmin env s plugin caller newAdmin = Inl e) \<and>
      persisted s (arc58_pluginChangeAdmin env s plugin caller newAdmin) = s) \<and>
   (\<forall>info. plugins s \<lparr>application = plugin, allowedCaller = caller\<rparr> = Some info \<and>
      adminPrivileges info = 0 \<and> pluginCallAllowed env s plugin caller = Inr True \<longrightarrow>
      (\<exists>e. arc58_pluginChangeAdmin env s plugin caller newAdmin = Inl e))"
proof -
  let ?r = "arc58_pluginChangeAdmin env s plugin caller newAdmin"
  let ?cond = "Some (sender (txn env)) = appAddress env plugin \<and>
    Some (authAddr s (controlledAddress s)) = appAddress env plugin \<and>
    (\<exists>info. plugins s \<lparr>application = plugin, allowedCaller = caller\<rparr> = Some info \<and>
            adminPrivileges info \<noteq> 0)"
  have 1: "?cond \<longrightarrow> ?r = Inr (s\<lparr>admin := newAdmin\<rparr>)"
    using pluginChangeAdmin_ok by blast
  have f: "\<not> ?cond \<Longrightarrow> \<exists>e. ?r = Inl e"
  proof (cases ?r)
    case (Inl e)
    then show ?thesis by simp
  next
    case (Inr s')
    assume "\<not> ?cond"
    with pluginChangeAdmin_Inr[OF Inr] show ?thesis by blast
  qed
  have 2: "\<not> ?cond \<longrightarrow> (\<exists>e. ?r = Inl e) \<and> persisted s ?r = s"
  proof
    assume "\<not> ?cond"
    from f[OF this] show "(\<exists>e. ?r = Inl e) \<and> persisted s ?r = s"
      by (auto simp: persisted_def)
  qed
  have 3: "\<forall>info. plugins s \<lparr>application = plugin, allowedCaller = caller\<rparr> = Some info \<and>
      adminPrivileges info = 0 \<and> pluginCallAllowed env s plugin caller = Inr True \<longrightarrow>
      (\<exists>e. ?r = Inl e)"
  proof (intro allI impI, elim conjE)
    fix info
    assume i: "plugins s \<lparr>application = plugin, allowedCaller = caller\<rparr> = Some info"
      and z: "adminPrivileges info = 0"
    then have "\<not> ?cond" by auto
    from f[OF this] show "\<exists>e. ?r = Inl e" .
  qed
  from 1 2 3 show ?thesis by (intro conjI)
qed

text \<open>
  Plugin 7 holds the controlled address and calls with its wildcard grant: with the admin
  privilege the admin becomes address 9, without it the call fails although the grant is
  active.
\<close>

theorem pluginChangeAdmin_succeeds_iff_witness:
  "arc58_pluginChangeAdmin (demoEnv 1007 3 []) (delegatedState 1) 7 zeroAddress 9 =
     Inr ((delegatedState 1)\<lparr>admin := 9\<rparr>) \<and>
   pluginCallAllowed (demoEnv 1007 3 []) (delegatedState 0) 7 zeroAddress = Inr True \<and>
   arc58_pluginChangeAdmin (demoEnv 1007 3 []) (delegatedState 0) 7 zeroAddress 9 =
     Inl PLUGIN_DOES_NOT_HAVE_ADMIN_PRIVILEGES \<and>
   persisted (delegatedState 0)
     (arc58_pluginChangeAdmin (demoEnv 1007 3 []) (delegatedState 0) 7 zeroAddress 9) =
     delegatedState 0"
proof -
  let ?env = "demoEnv 1007 3 []"
  have a: "authAddr (delegatedState ap) 1100 = 1007" for ap
    by (simp add: delegatedState_def demoState_def)
  have g: "plugins (delegatedState ap) \<lparr>application = 7, allowedCaller = zeroAddress\<rparr> =
      Some (grant 1000 0 3 ap)" for ap
    using demo_plugins(2)[of ap] by (simp add: wildcardKey_def)
  have e: "arc58_pluginChangeAdmin ?env (delegatedState 0) 7 zeroAddress 9 =
     Inl PLUGIN_DOES_NOT_HAVE_ADMIN_PRIVILEGES"
    unfolding arc58_pluginChangeAdmin_def Let_def
    using plugins_SomeD[OF g[of 0]]
    by (auto simp: a box_exists_def box_uint8_stored[OF g])
  have p: "pluginCallAllowed ?env (delegatedState 0) 7 zeroAddress = Inr True"
    by (simp add: pluginCallAllowed_stored[OF g])
  note t1 = pluginChangeAdmin_succeeds_iff[of ?env 7 "delegatedState 1" zeroAddress 9]
  from t1[THEN conjunct1] g[of 1] a[of 1]
  have s: "arc58_pluginChangeAdmin ?env (delegatedState 1) 7 zeroAddress 9 =
     Inr ((delegatedState 1)\<lparr>admin := 9\<rparr>)" by simp
  from s p e show ?thesis by (simp add: persisted_def)
qed

subsection \<open>The grant evaluator on the deployment\<close>

text \<open>
  No grant; a grant past its last valid round; a grant with cooldown 5 asked at round 4
  after a use at round 0, and at round 8 after a use at round 3.
\<close>

theorem pluginCallAllowed_cases_witness:
  "pluginCallAllowed (demoEnv 2 3 []) demoState 7 zeroAddress = Inr False \<and>
   pluginCallAllowed (demoEnv 2 2000 []) (grantState 1000 0 0) 7 zeroAddress = Inr False \<and>
   pluginCallAllowed (demoEnv 2 4 []) (grantState 1000 5 0) 7 zeroAddress = Inr False \<and>
   pluginCallAllowed (demoEnv 2 8 []) (grantState 1000 5 3) 7 zeroAddress = Inr True"
proof -
  have a: "\<not> pluginsExists demoState \<lparr>application = 7, allowedCaller = zeroAddress\<rparr>"
    by (simp add: pluginsExists_def demoState_def)
  have b: "plugins (grantState lv cd lc) \<lparr>application = 7, allowedCaller = zeroAddress\<rparr> =
             Some (grant lv cd lc 0)" for lv cd lc
    using demo_plugins(1)[of lv cd lc] by (simp add: wildcardKey_def)
  note t1 = pluginCallAllowed_cases[of demoState 7 zeroAddress "demoEnv 2 3 []"]
  note t2 = pluginCallAllowed_cases[of "grantState 1000 0 0" 7 zeroAddress "demoEnv 2 2000 []"]
  note t3 = pluginCallAllowed_cases[of "grantState 1000 5 0" 7 zeroAddress "demoEnv 2 4 []"]
  note t4 = pluginCallAllowed_cases[of "grantState 1000 5 3" 7 zeroAddress "demoEnv 2 8 []"]
  from t1[THEN conjunct1] a
  have 1: "pluginCallAllowed (demoEnv 2 3 []) demoState 7 zeroAddress = Inr False" by simp
  from t2[THEN conjunct2, THEN conjunct1, rule_format, of "grant 1000 0 0 0"] b
  have 2: "pluginCallAllowed (demoEnv 2 2000 []) (grantState 1000 0 0) 7 zeroAddress = Inr False"
    by simp
  from t3[THEN conjunct2, THEN conjunct2, rule_format, of "grant 1000 5 0 0"] b
  have 3: "pluginCallAllowed (demoEnv 2 4 []) (grantState 1000 5 0) 7 zeroAddress = Inr False"
    by simp
  from t4[THEN conjunct2, THEN conjunct2, rule_format, of "grant 1000 5 3 0"] b
  have 4: "pluginCallAllowed (demoEnv 2 8 []) (grantState 1000 5 3) 7 zeroAddress = Inr True"
    by simp
  from 1 2 3 4 show ?thesis by simp
qed

subsection \<open>Creation\<close>

text \<open>
  C8. \<open>createApplication\<close> fails when the admin is the controlled address, and when the
  caller application is 0 (the creation does not come from a factory). Otherwise it sets
  the version, the factory, the admin, the revocation application and the controlled
  address (the application's own address when the zero address is given), and nothing
  else.
\<close>

theorem createApplication_checks:
  "(admin' = controlledAddress' \<longrightarrow>
      createApplication env s version' controlledAddress' admin' revocationApp' =
        Inl ADMIN_AND_CONTROLLED_ADDRESS_SAME) \<and>
   (globals_callerApplicationID env = 0 \<longrightarrow>
      (\<exists>e. createApplication env s version' controlledAddress' admin' revocationApp' = Inl e)) \<and>
   (admin' \<noteq> controlledAddress' \<and> globals_callerApplicationID env \<noteq> 0 \<longrightarrow>
      (\<exists>s'. createApplication env s version' controlledAddress' admin' revocationApp' = Inr s' \<and>
        version s' = version' \<and>
        factoryApp s' = globals_callerApplicationID env \<and>
        admin s' = admin' \<and>
        revocationApp s' = revocationApp' \<and>
        controlledAddress s' =
          (if controlledAddress' = zeroAddress then globals_currentApplicationAddress env
           else controlledAddress') \<and>
        boxes s' = boxes s \<and> authAddr s' = authAddr s))"
  by (simp add: createApplication_def)

lemma demo_create:
  "createApplication createEnv emptyState ''1'' zeroAddress 1 60 = Inr demoState"
  by (simp add: createApplication_def createEnv_def demoEnv_def emptyState_def
        demoState_def zeroAddress_def)

text \<open>
  Admin 5 for controlled address 5; no calling factory; and a creation by factory 50.
\<close>

theorem createApplication_checks_witness:
  "createApplication createEnv emptyState ''1'' 5 5 60 = Inl ADMIN_AND_CONTROLLED_ADDRESS_SAME \<and>
   createApplication (demoEnv 1 1 []) emptyState ''1'' zeroAddress 1 60 =
     Inl MUST_BE_DEPLOYED_FROM_FACTORY \<and>
   createApplication createEnv emptyState ''1'' zeroAddress 1 60 = Inr demoState"
proof -
  have a: "createApplication (demoEnv 1 1 []) emptyState ''1'' zeroAddress 1 60 =
     Inl MUST_BE_DEPLOYED_FROM_FACTORY"
    by (simp add: createApplication_def demoEnv_def zeroAddress_def)
  show ?thesis
    using createApplication_checks[of 5 5 createEnv emptyState "''1''" 60] a demo_create by simp
qed

subsection \<open>Registering a named plugin\<close>

lemma addNamedPlugin_Inr:
  assumes "arc58_addNamedPlugin env s name app' caller lastValid cool adminPriv = Inr s'"
  shows "isAdmin env s \<and> length name \<le> 63 \<and> boxes s (namedPluginsBox name) = None \<and>
         pluginsBox \<lparr>application = app', allowedCaller = caller\<rparr> \<noteq> namedPluginsBox name \<and>
         (boxes s (pluginsBox \<lparr>application = app', allowedCaller = caller\<rparr>) = None \<or>
          (\<exists>b. boxes s (pluginsBox \<lparr>application = app', allowedCaller = caller\<rparr>) = Some b \<and>
               length b = 25)) \<and>
         s' = s\<lparr>boxes := (boxes s)
                (namedPluginsBox name \<mapsto>
                   encodePluginsKey \<lparr>application = app', allowedCaller = caller\<rparr>,
                 pluginsBox \<lparr>application = app', allowedCaller = caller\<rparr> \<mapsto>
                   encodePluginInfo
                     \<lparr>lastValidRound = lastValid, cooldown = cool, lastCalled = 0,
                      adminPrivileges = (if adminPriv then 1 else 0)\<rparr>)\<rparr>"
proof -
  let ?n = "namedPluginsBox name"
  let ?p = "pluginsBox \<lparr>application = app', allowedCaller = caller\<rparr>"
  from assms have a: "isAdmin env s"
    by (auto simp: arc58_addNamedPlugin_def split: if_splits)
  from assms a have v: "validBoxName ?n"
    by (auto simp: arc58_addNamedPlugin_def box_exists_def split: if_splits)
  from assms a v have n: "boxes s ?n = None"
    by (auto simp: arc58_addNamedPlugin_def box_exists_def split: if_splits)
  from assms a v n have
    p: "box_put (s\<lparr>boxes := (boxes s)(?n \<mapsto>
            encodePluginsKey \<lparr>application = app', allowedCaller = caller\<rparr>)\<rparr>) ?p
          (encodePluginInfo
             \<lparr>lastValidRound = lastValid, cooldown = cool, lastCalled = 0,
              adminPrivileges = (if adminPriv then 1 else 0)\<rparr>) = Inr s'"
    by (simp add: arc58_addNamedPlugin_def box_exists_def box_put_def Let_def)
  have d: "?p \<noteq> ?n"
  proof
    assume e: "?p = ?n"
    from v have "box_put (s\<lparr>boxes := (boxes s)(?n \<mapsto>
            encodePluginsKey \<lparr>application = app', allowedCaller = caller\<rparr>)\<rparr>) ?n
          (encodePluginInfo
             \<lparr>lastValidRound = lastValid, cooldown = cool, lastCalled = 0,
              adminPrivileges = (if adminPriv then 1 else 0)\<rparr>) = Inl BOX_SIZE_MISMATCH"
      by (simp add: box_put_def)
    with p e show False by simp
  qed
  from p d have
    b: "boxes s ?p = None \<or> (\<exists>b. boxes s ?p = Some b \<and> length b = 25)"
    by (cases "boxes s ?p") (auto simp: box_put_def split: if_splits)
  from p d have "s' = s\<lparr>boxes := (boxes s)(?n \<mapsto>
            encodePluginsKey \<lparr>application = app', allowedCaller = caller\<rparr>,
          ?p \<mapsto> encodePluginInfo
             \<lparr>lastValidRound = lastValid, cooldown = cool, lastCalled = 0,
              adminPrivileges = (if adminPriv then 1 else 0)\<rparr>)\<rparr>"
    by (cases "boxes s ?p") (auto simp: box_put_def split: if_splits)
  with a v n d b show ?thesis by simp
qed

lemma addNamedPlugin_ok:
  assumes "isAdmin env s" and "length name \<le> 63" and "boxes s (namedPluginsBox name) = None"
    and "pluginsBox \<lparr>application = app', allowedCaller = caller\<rparr> \<noteq> namedPluginsBox name"
    and "boxes s (pluginsBox \<lparr>application = app', allowedCaller = caller\<rparr>) = None \<or>
          (\<exists>b. boxes s (pluginsBox \<lparr>application = app', allowedCaller = caller\<rparr>) = Some b \<and>
               length b = 25)"
  shows "arc58_addNamedPlugin env s name app' caller lastValid cool adminPriv =
         Inr (s\<lparr>boxes := (boxes s)
                (namedPluginsBox name \<mapsto>
                   encodePluginsKey \<lparr>application = app', allowedCaller = caller\<rparr>,
                 pluginsBox \<lparr>application = app', allowedCaller = caller\<rparr> \<mapsto>
                   encodePluginInfo
                     \<lparr>lastValidRound = lastValid, cooldown = cool, lastCalled = 0,
                      adminPrivileges = (if adminPriv then 1 else 0)\<rparr>)\<rparr>)"
  using assms
  by (auto simp: arc58_addNamedPlugin_def box_exists_def box_put_def Let_def)



lemma isAdmin_boxes:
  assumes "admin s' = admin s"
    and "boxes s' (passkeysBox (sender (txn env))) = boxes s (passkeysBox (sender (txn env)))"
  shows "isAdmin env s' = isAdmin env s"
  using assms by (simp add: isAdmin_def)


lemma plugins_after_registration:
  "plugins (s\<lparr>boxes := (boxes s)(n \<mapsto> v, pluginsBox k \<mapsto> encodePluginInfo i)\<rparr>) k = Some i"
  by (simp add: plugins_encoded)

lemma namedPlugins_after_registration:
  assumes "pluginsBox k \<noteq> namedPluginsBox name"
  shows "namedPlugins
           (s\<lparr>boxes := (boxes s)(namedPluginsBox name \<mapsto> encodePluginsKey k', pluginsBox k \<mapsto> w)\<rparr>)
           name = Some k'"
  using assms by (simp add: namedPlugins_encoded)

text \<open>
  C10. A successful \<open>arc58_addNamedPlugin\<close> for a key that already holds a grant, which
  implies that the name was not registered, replaces that grant: the new one has the
  call's \<open>lastValidRound\<close>, \<open>cooldown\<close> and \<open>adminPrivileges\<close> and \<open>lastCalled\<close> 0, and the
  name points at the key. An admin's call with an unregistered name of at most 63 bytes,
  for a key that holds a grant, does succeed.
\<close>

theorem addNamedPlugin_overwrites_grant:
  "(\<forall>s' old. arc58_addNamedPlugin env s name app' caller lastValid cool adminPriv = Inr s' \<and>
       plugins s \<lparr>application = app', allowedCaller = caller\<rparr> = Some old \<longrightarrow>
       namedPlugins s name = None \<and> \<not> namedPluginsExists s name \<and>
       plugins s' \<lparr>application = app', allowedCaller = caller\<rparr> =
         Some \<lparr>lastValidRound = lastValid, cooldown = cool, lastCalled = 0,
               adminPrivileges = (if adminPriv then 1 else 0)\<rparr> \<and>
       namedPlugins s' name = Some \<lparr>application = app', allowedCaller = caller\<rparr>) \<and>
   (isAdmin env s \<and> length name \<le> 63 \<and> \<not> namedPluginsExists s name \<and>
    (\<exists>b. boxes s (pluginsBox \<lparr>application = app', allowedCaller = caller\<rparr>) = Some b \<and>
         length b = 25) \<longrightarrow>
       (\<exists>s'. arc58_addNamedPlugin env s name app' caller lastValid cool adminPriv = Inr s'))"
proof -
  let ?r = "arc58_addNamedPlugin env s name app' caller lastValid cool adminPriv"
  let ?k = "\<lparr>application = app', allowedCaller = caller\<rparr>"
  let ?i = "\<lparr>lastValidRound = lastValid, cooldown = cool, lastCalled = 0,
             adminPrivileges = (if adminPriv then 1 else 0)\<rparr>"
  have 1: "\<forall>s' old. ?r = Inr s' \<and> plugins s ?k = Some old \<longrightarrow>
       namedPlugins s name = None \<and> \<not> namedPluginsExists s name \<and>
       plugins s' ?k = Some ?i \<and> namedPlugins s' name = Some ?k"
  proof (intro allI impI, elim conjE)
    fix s' old
    assume r: "?r = Inr s'"
    note f = addNamedPlugin_Inr[OF r]
    from f have n: "boxes s (namedPluginsBox name) = None" by simp
    from f have d: "pluginsBox ?k \<noteq> namedPluginsBox name" by simp
    from f have s': "s' = s\<lparr>boxes := (boxes s)(namedPluginsBox name \<mapsto> encodePluginsKey ?k,
        pluginsBox ?k \<mapsto> encodePluginInfo ?i)\<rparr>" by simp
    from n have a: "namedPlugins s name = None" "\<not> namedPluginsExists s name"
      by (simp_all add: namedPlugins_def namedPluginsExists_def)
    have b: "plugins s' ?k = Some ?i"
      unfolding s' by (rule plugins_after_registration)
    have c: "namedPlugins s' name = Some ?k"
      unfolding s' by (rule namedPlugins_after_registration[OF d])
    from a b c show "namedPlugins s name = None \<and> \<not> namedPluginsExists s name \<and>
       plugins s' ?k = Some ?i \<and> namedPlugins s' name = Some ?k" by simp
  qed
  have 2: "isAdmin env s \<and> length name \<le> 63 \<and> \<not> namedPluginsExists s name \<and>
    (\<exists>b. boxes s (pluginsBox ?k) = Some b \<and> length b = 25) \<longrightarrow> (\<exists>s'. ?r = Inr s')"
  proof (intro impI, elim conjE exE)
    fix b
    assume a: "isAdmin env s" and l: "length name \<le> 63"
      and n: "\<not> namedPluginsExists s name"
      and b: "boxes s (pluginsBox ?k) = Some b" "length b = 25"
    from n l have n': "boxes s (namedPluginsBox name) = None"
      by (simp add: namedPluginsExists_def)
    from n' b have d: "pluginsBox ?k \<noteq> namedPluginsBox name" by auto
    from b have "boxes s (pluginsBox ?k) = None \<or>
       (\<exists>b. boxes s (pluginsBox ?k) = Some b \<and> length b = 25)" by simp
    from addNamedPlugin_ok[OF a l n' d this] show "\<exists>s'. ?r = Inr s'" by simp
  qed
  from 1 2 show ?thesis by (intro conjI)
qed

lemma demo_isAdmin [simp]:
  "isAdmin (demoEnv 1 r after) demoState" "isAdmin (demoEnv 1 r after) namedState"
  "isAdmin (demoEnv 1 r after) (delegatedState ap)"
  "isAdmin (demoEnv 1 r after) (grantState lv cd lc)"
  by (simp_all add: isAdmin_def)

lemma demo_wildcard_neq_nameX [simp]: "pluginsBox (wildcardKey 7) \<noteq> namedPluginsBox nameX"
proof
  assume "pluginsBox (wildcardKey 7) = namedPluginsBox nameX"
  then have "length (pluginsBox (wildcardKey 7)) = length (namedPluginsBox nameX)" by simp
  then show False by (simp add: nameX_def)
qed

lemma demo_nameX_neq_wildcard [simp]: "namedPluginsBox nameX \<noteq> pluginsBox (wildcardKey 7)"
  using demo_wildcard_neq_nameX by (simp only: not_sym not_False_eq_True)

lemma passkeysBox_neq_nameX [simp]:
  "passkeysBox a \<noteq> namedPluginsBox nameX" "namedPluginsBox nameX \<noteq> passkeysBox a"
proof -
  have l: "length (passkeysBox a) \<noteq> length (namedPluginsBox nameX)"
    by (simp add: nameX_def)
  show "passkeysBox a \<noteq> namedPluginsBox nameX"
  proof
    assume "passkeysBox a = namedPluginsBox nameX"
    then have "length (passkeysBox a) = length (namedPluginsBox nameX)" by (rule arg_cong)
    with l show False by (rule notE)
  qed
  then show "namedPluginsBox nameX \<noteq> passkeysBox a" by (rule not_sym)
qed

lemma demo_boxes:
  "boxes demoState = Map.empty"
  "boxes (delegatedState ap) =
     [pluginsBox (wildcardKey 7) \<mapsto> encodePluginInfo (grant 1000 0 3 ap)]"
  "boxes namedState =
     [namedPluginsBox nameX \<mapsto> encodePluginsKey (wildcardKey 7),
      pluginsBox (wildcardKey 7) \<mapsto> encodePluginInfo (grant 1000 0 0 0)]"
  by (simp_all add: demoState_def delegatedState_def namedState_def)


lemma demo_named_exists [simp]: "namedPluginsExists namedState nameX"
  by (simp add: namedPluginsExists_def namedState_def nameX_def)

text \<open>
  The grant of plugin 7, with admin privilege and last used at round 3, is replaced when
  the admin registers the name \<open>x\<close> for it.
\<close>

theorem addNamedPlugin_overwrites_grant_witness:
  "arc58_addNamedPlugin (demoEnv 1 5 []) (delegatedState 1) nameX 7 zeroAddress 2000 4 False =
     Inr ((delegatedState 1)\<lparr>boxes :=
        [namedPluginsBox nameX \<mapsto> encodePluginsKey (wildcardKey 7),
         pluginsBox (wildcardKey 7) \<mapsto> encodePluginInfo (grant 2000 4 0 0)]\<rparr>) \<and>
   plugins (delegatedState 1) (wildcardKey 7) = Some (grant 1000 0 3 1) \<and>
   namedPlugins (delegatedState 1) nameX = None \<and>
   plugins (persisted (delegatedState 1)
     (arc58_addNamedPlugin (demoEnv 1 5 []) (delegatedState 1) nameX 7 zeroAddress 2000 4 False))
     (wildcardKey 7) = Some (grant 2000 4 0 0) \<and>
   namedPlugins (persisted (delegatedState 1)
     (arc58_addNamedPlugin (demoEnv 1 5 []) (delegatedState 1) nameX 7 zeroAddress 2000 4 False))
     nameX = Some (wildcardKey 7)"
proof -
  let ?env = "demoEnv 1 5 []"
  let ?s = "delegatedState 1"
  let ?s' = "?s\<lparr>boxes :=
        [namedPluginsBox nameX \<mapsto> encodePluginsKey (wildcardKey 7),
         pluginsBox (wildcardKey 7) \<mapsto> encodePluginInfo (grant 2000 4 0 0)]\<rparr>"
  have e: "arc58_addNamedPlugin ?env ?s nameX 7 zeroAddress 2000 4 False = Inr ?s'"
  proof -
    have "arc58_addNamedPlugin ?env ?s nameX 7 zeroAddress 2000 4 False =
      Inr (?s\<lparr>boxes := (boxes ?s)
                (namedPluginsBox nameX \<mapsto>
                   encodePluginsKey \<lparr>application = 7, allowedCaller = zeroAddress\<rparr>,
                 pluginsBox \<lparr>application = 7, allowedCaller = zeroAddress\<rparr> \<mapsto>
                   encodePluginInfo
                     \<lparr>lastValidRound = 2000, cooldown = 4, lastCalled = 0,
                      adminPrivileges = (if False then 1 else 0)\<rparr>)\<rparr>)"
    proof (rule addNamedPlugin_ok)
      show "pluginsBox \<lparr>application = 7, allowedCaller = zeroAddress\<rparr> \<noteq> namedPluginsBox nameX"
        using demo_wildcard_neq_nameX by (simp add: wildcardKey_def)
      show "boxes ?s (namedPluginsBox nameX) = None"
        using demo_wildcard_neq_nameX by (auto simp: demo_boxes)
    qed (simp_all add: nameX_def demo_boxes wildcardKey_def)
    then show ?thesis
      by (simp add: demo_boxes wildcardKey_def grant_def)
  qed
  have o: "plugins ?s \<lparr>application = 7, allowedCaller = zeroAddress\<rparr> = Some (grant 1000 0 3 1)"
    using demo_plugins(2)[of 1] by (simp add: wildcardKey_def)
  note t = addNamedPlugin_overwrites_grant[of ?env ?s nameX 7 zeroAddress 2000 4 False, THEN conjunct1, rule_format,
      of ?s' "grant 1000 0 3 1"]
  from t e o have
    "namedPlugins ?s nameX = None \<and>
     plugins ?s' \<lparr>application = 7, allowedCaller = zeroAddress\<rparr> =
       Some \<lparr>lastValidRound = 2000, cooldown = 4, lastCalled = 0, adminPrivileges = 0\<rparr> \<and>
     namedPlugins ?s' nameX = Some \<lparr>application = 7, allowedCaller = zeroAddress\<rparr>"
    by simp
  with e o show ?thesis by (simp add: persisted_def wildcardKey_def grant_def)
qed




subsection \<open>What a call does to a stored grant\<close>

lemma plugins_cong:
  "boxes s' (pluginsBox k) = boxes s (pluginsBox k) \<Longrightarrow> plugins s' k = plugins s k"
  by (simp add: plugins_def)

lemma rekeyToPlugin_grant:
  assumes r: "arc58_rekeyToPlugin env s plugin = Inr s'" and g: "plugins s k = Some g"
  shows "plugins s' k =
           (if k = stampedKey env s plugin then Some (g\<lparr>lastCalled := globals_round env\<rparr>)
            else Some g)"
    and "k = stampedKey env s plugin \<Longrightarrow> lastCalled g \<le> globals_round env"
proof -
  from rekeyToPlugin_Inr[OF r] obtain b where
    b: "boxes s (pluginsBox (stampedKey env s plugin)) = Some b"
    and s': "boxes s' = (boxes s)(pluginsBox (stampedKey env s plugin) \<mapsto>
                         take 16 b @ itob (globals_round env) @ drop 24 b)" by blast
  show "plugins s' k =
           (if k = stampedKey env s plugin then Some (g\<lparr>lastCalled := globals_round env\<rparr>)
            else Some g)"
  proof (cases "k = stampedKey env s plugin")
    case True
    from plugins_SomeD[OF g] b True have l: "25 \<le> length b" and d: "g = decodePluginInfo b"
      by auto
    from l have "plugins s' k = Some (decodePluginInfo
        (take 16 b @ itob (globals_round env) @ drop 24 b))"
      by (simp add: plugins_def s' True)
    with decode_stamped[OF l] d True show ?thesis by simp
  next
    case False
    then have "boxes s' (pluginsBox k) = boxes s (pluginsBox k)" by (simp add: s')
    from plugins_cong[OF this] g False show ?thesis by simp
  qed
  show "lastCalled g \<le> globals_round env" if k: "k = stampedKey env s plugin"
  proof -
    note act = rekeyToPlugin_active[OF r]
    from stampedKey_active[OF act] have
      a: "pluginCallAllowed env s plugin (allowedCaller (stampedKey env s plugin)) = Inr True"
      and p: "application (stampedKey env s plugin) = plugin" by simp_all
    from g k p have "plugins s \<lparr>application = plugin,
        allowedCaller = allowedCaller (stampedKey env s plugin)\<rparr> = Some g"
      by (cases "stampedKey env s plugin") simp
    from pluginCallAllowed_True_le[OF a this] show ?thesis .
  qed
qed

lemma addPlugin_boxes:
  assumes "arc58_addPlugin env s app' caller lastValid cool adminPriv isPasskey domain = Inr s'"
  shows "boxes s' (pluginsBox k) =
           (if k = \<lparr>application = app', allowedCaller = caller\<rparr>
            then Some (encodePluginInfo
                   \<lparr>lastValidRound = lastValid, cooldown = cool, lastCalled = 0,
                    adminPrivileges = (if adminPriv then 1 else 0)\<rparr>)
            else boxes s (pluginsBox k))"
proof -
  let ?key = "\<lparr>application = app', allowedCaller = caller\<rparr>"
  let ?v = "encodePluginInfo
                   \<lparr>lastValidRound = lastValid, cooldown = cool, lastCalled = 0,
                    adminPrivileges = (if adminPriv then 1 else 0)\<rparr>"
  from assms have a: "isAdmin env s"
    by (auto simp: arc58_addPlugin_def split: if_splits)
  from assms a obtain s1 where p: "box_put s (pluginsBox ?key) ?v = Inr s1"
    by (cases "box_put s (pluginsBox ?key) ?v") (auto simp: arc58_addPlugin_def)
  from p have s1: "boxes s1 = (boxes s)(pluginsBox ?key \<mapsto> ?v)"
    by (auto simp: box_put_def split: option.splits if_splits)
  have "boxes s' (pluginsBox k) = boxes s1 (pluginsBox k)"
  proof (cases isPasskey)
    case False
    with assms a p show ?thesis by (simp add: arc58_addPlugin_def)
  next
    case True
    with assms a p have "box_put (s1\<lparr>boxes := (boxes s1)(passkeysBox caller := None)\<rparr>)
        (passkeysBox caller) domain = Inr s'"
      by (auto simp: arc58_addPlugin_def box_del_def split: if_splits)
    then have "boxes s' = (boxes s1)(passkeysBox caller \<mapsto> domain)"
      by (auto simp: box_put_def)
    then show ?thesis by simp
  qed
  with s1 show ?thesis by simp
qed

lemma removePlugin_boxes:
  assumes "arc58_removePlugin env s app' caller = Inr s'"
  shows "boxes s' = (boxes s)(pluginsBox \<lparr>application = app', allowedCaller = caller\<rparr> := None)"
  using assms
  by (cases "assertAdminOrRevoker env s") (auto simp: arc58_removePlugin_def box_del_def)

lemma removeNamedPlugin_Inl:
  "\<exists>e. arc58_removeNamedPlugin env s name = Inl e"
proof (cases "assertAdminOrRevoker env s")
  case (Inl e)
  then show ?thesis by (simp add: arc58_removeNamedPlugin_def)
next
  case (Inr u)
  show ?thesis
  proof (cases "validBoxName (namedPluginsBox name)")
    case False
    with Inr show ?thesis by (simp add: arc58_removeNamedPlugin_def box_del_def)
  next
    case True
    with Inr show ?thesis
      by (simp add: arc58_removeNamedPlugin_def box_del_def box_get_def)
  qed
qed

lemma rekeyTo_boxes:
  assumes "arc58_rekeyTo env s addr = Inr s'"
  shows "boxes s' = boxes s"
proof -
  from assms have a: "isAdmin env s" by (auto simp: arc58_rekeyTo_def split: if_splits)
  from assms a obtain s1 where p: "sendPayment env s (controlledAddress s) addr = Inr s1"
    by (cases "sendPayment env s (controlledAddress s) addr") (auto simp: arc58_rekeyTo_def)
  from assms a p have "s' = s1"
    by (cases "verifyRekeyToAbstractedAccount env s1") (auto simp: arc58_rekeyTo_def)
  with sendPayment_boxes[OF p] show ?thesis by simp
qed

lemma pluginChangeAdmin_boxes:
  assumes "arc58_pluginChangeAdmin env s plugin caller newAdmin = Inr s'"
  shows "boxes s' = boxes s"
proof -
  from pluginChangeAdmin_Inr[OF assms] obtain info where
    "Some (sender (txn env)) = appAddress env plugin"
    "Some (authAddr s (controlledAddress s)) = appAddress env plugin"
    "plugins s \<lparr>application = plugin, allowedCaller = caller\<rparr> = Some info"
    "adminPrivileges info \<noteq> 0" by blast
  from pluginChangeAdmin_ok[OF this, of newAdmin] assms show ?thesis by simp
qed

lemma simple_boxes:
  "createApplication env s v ca a r = Inr s' \<Longrightarrow> boxes s' = boxes s"
  "updateApplication env s v = Inr s' \<Longrightarrow> boxes s' = boxes s"
  "changeRevocationApp env s r = Inr s' \<Longrightarrow> boxes s' = boxes s"
  "arc58_changeAdmin env s a = Inr s' \<Longrightarrow> boxes s' = boxes s"
  "arc58_verifyAuthAddr env s = Inr s' \<Longrightarrow> boxes s' = boxes s"
  by (auto simp: createApplication_def updateApplication_def changeRevocationApp_def
      arc58_changeAdmin_def arc58_verifyAuthAddr_def split: if_splits)

lemma existingCall_grant:
  assumes r: "existingCall env s c = Inr s'" and g: "plugins s k = Some g"
  shows "plugins s' k =
     (case registration c of
        Some (k', i) \<Rightarrow> if k' = k then Some i else Some g
      | None \<Rightarrow>
          (case delegation env s c of
             Some k' \<Rightarrow> if k' = k then Some (g\<lparr>lastCalled := globals_round env\<rparr>) else Some g
           | None \<Rightarrow>
               if c = Arc58_removePlugin (application k) (allowedCaller k) then None
               else Some g))"
proof (cases c)
  case (CreateApplication v ca a rv)
  with r show ?thesis by simp
next
  case (UpdateApplication v)
  with r have "boxes s' = boxes s" by (simp add: simple_boxes)
  with g UpdateApplication show ?thesis by (simp add: plugins_def)
next
  case (ChangeRevocationApp rv)
  with r have "boxes s' = boxes s" by (simp add: simple_boxes)
  with g ChangeRevocationApp show ?thesis by (simp add: plugins_def)
next
  case (Arc58_changeAdmin a)
  with r have "boxes s' = boxes s" by (simp add: simple_boxes)
  with g Arc58_changeAdmin show ?thesis by (simp add: plugins_def)
next
  case (Arc58_pluginChangeAdmin p cl a)
  with r have "boxes s' = boxes s" by (simp add: pluginChangeAdmin_boxes)
  with g Arc58_pluginChangeAdmin show ?thesis by (simp add: plugins_def)
next
  case Arc58_verifyAuthAddr
  with r have "boxes s' = boxes s" by (simp add: simple_boxes)
  with g Arc58_verifyAuthAddr show ?thesis by (simp add: plugins_def)
next
  case (Arc58_rekeyTo a)
  with r have "boxes s' = boxes s" by (simp add: rekeyTo_boxes)
  with g Arc58_rekeyTo show ?thesis by (simp add: plugins_def)
next
  case (Arc58_rekeyToPlugin p)
  with r have "arc58_rekeyToPlugin env s p = Inr s'" by simp
  from rekeyToPlugin_grant(1)[OF this g] Arc58_rekeyToPlugin show ?thesis by auto
next
  case (Arc58_rekeyToNamedPlugin n)
  with r obtain p where p: "box_uint64 s (namedPluginsBox n) 0 = Inr p"
    by (cases "box_uint64 s (namedPluginsBox n) 0") (auto simp: arc58_rekeyToNamedPlugin_def)
  with r Arc58_rekeyToNamedPlugin have "arc58_rekeyToPlugin env s p = Inr s'"
    by (simp add: arc58_rekeyToNamedPlugin_def)
  from rekeyToPlugin_grant(1)[OF this g] Arc58_rekeyToNamedPlugin p show ?thesis by auto
next
  case (Arc58_addPlugin p cl l cd ap pk d)
  with r have a: "arc58_addPlugin env s p cl l cd ap pk d = Inr s'" by simp
  note b = addPlugin_boxes[OF a, of k]
  show ?thesis
  proof (cases "k = \<lparr>application = p, allowedCaller = cl\<rparr>")
    case True
    with b have "boxes s' (pluginsBox k) = Some (encodePluginInfo
        \<lparr>lastValidRound = l, cooldown = cd, lastCalled = 0,
         adminPrivileges = (if ap then 1 else 0)\<rparr>)" by simp
    from plugins_encoded[OF this] True Arc58_addPlugin show ?thesis by simp
  next
    case False
    with b have "boxes s' (pluginsBox k) = boxes s (pluginsBox k)" by simp
    from plugins_cong[OF this] g False Arc58_addPlugin show ?thesis by auto
  qed
next
  case (Arc58_removePlugin p cl)
  with r have a: "arc58_removePlugin env s p cl = Inr s'" by simp
  note b = removePlugin_boxes[OF a]
  show ?thesis
  proof (cases "k = \<lparr>application = p, allowedCaller = cl\<rparr>")
    case True
    with b have "plugins s' k = None" by (simp add: plugins_def)
    with True Arc58_removePlugin show ?thesis by simp
  next
    case False
    with b have "boxes s' (pluginsBox k) = boxes s (pluginsBox k)" by simp
    from plugins_cong[OF this] g have "plugins s' k = Some g" by simp
    moreover from False have "\<not> (p = application k \<and> cl = allowedCaller k)"
      by (cases k) auto
    ultimately show ?thesis using Arc58_removePlugin by auto
  qed
next
  case (Arc58_addNamedPlugin n p cl l cd ap)
  with r have a: "arc58_addNamedPlugin env s n p cl l cd ap = Inr s'" by simp
  note f = addNamedPlugin_Inr[OF a]
  from f have nb: "boxes s (namedPluginsBox n) = None" by simp
  from f have s': "boxes s' = (boxes s)
     (namedPluginsBox n \<mapsto> encodePluginsKey \<lparr>application = p, allowedCaller = cl\<rparr>,
      pluginsBox \<lparr>application = p, allowedCaller = cl\<rparr> \<mapsto> encodePluginInfo
        \<lparr>lastValidRound = l, cooldown = cd, lastCalled = 0,
         adminPrivileges = (if ap then 1 else 0)\<rparr>)" by simp
  show ?thesis
  proof (cases "k = \<lparr>application = p, allowedCaller = cl\<rparr>")
    case True
    with s' have "boxes s' (pluginsBox k) = Some (encodePluginInfo
        \<lparr>lastValidRound = l, cooldown = cd, lastCalled = 0,
         adminPrivileges = (if ap then 1 else 0)\<rparr>)" by simp
    from plugins_encoded[OF this] True Arc58_addNamedPlugin show ?thesis by simp
  next
    case False
    from plugins_SomeD[OF g] nb have "pluginsBox k \<noteq> namedPluginsBox n" by auto
    with False s' have "boxes s' (pluginsBox k) = boxes s (pluginsBox k)" by simp
    from plugins_cong[OF this] g False Arc58_addNamedPlugin show ?thesis by auto
  qed
next
  case (Arc58_removeNamedPlugin n)
  with r removeNamedPlugin_Inl[of env s n] show ?thesis by auto
qed

lemma dispatch_grant:
  assumes r: "dispatch env s c = Inr s'" and g: "plugins s k = Some g"
  shows "plugins s' k =
     (case registration c of
        Some (k', i) \<Rightarrow> if k' = k then Some i else Some g
      | None \<Rightarrow>
          (case delegation env s c of
             Some k' \<Rightarrow> if k' = k then Some (g\<lparr>lastCalled := globals_round env\<rparr>) else Some g
           | None \<Rightarrow>
               if c = Arc58_removePlugin (application k) (allowedCaller k) then None
               else Some g))"
proof (cases "applicationID (txn env) = 0")
  case False
  with r have "existingCall env s c = Inr s'" by (simp add: dispatch_def)
  from existingCall_grant[OF this g] show ?thesis .
next
  case True
  with r obtain v ca a rv where c: "c = CreateApplication v ca a rv"
    by (cases c) (auto simp: dispatch_def)
  with r True have "createApplication env s v ca a rv = Inr s'" by (simp add: dispatch_def)
  then have "boxes s' = boxes s" by (rule simple_boxes)
  with g c show ?thesis by (simp add: plugins_def)
qed

lemma dispatch_delegation_le:
  assumes r: "dispatch env s c = Inr s'" and g: "plugins s k = Some g"
    and d: "delegation env s c = Some k"
  shows "lastCalled g \<le> globals_round env"
proof -
  from d have n: "\<forall>v ca a rv. c \<noteq> CreateApplication v ca a rv" by auto
  have e: "existingCall env s c = Inr s'"
  proof (cases "applicationID (txn env) = 0")
    case False
    with r show ?thesis by (simp add: dispatch_def)
  next
    case True
    with r n show ?thesis by (cases c) (auto simp: dispatch_def)
  qed
  show ?thesis
  proof (cases c)
    case (Arc58_rekeyToPlugin p)
    with e have "arc58_rekeyToPlugin env s p = Inr s'" by simp
    from rekeyToPlugin_grant(2)[OF this g] d Arc58_rekeyToPlugin show ?thesis by simp
  next
    case (Arc58_rekeyToNamedPlugin nm)
    with e obtain p where p: "box_uint64 s (namedPluginsBox nm) 0 = Inr p"
      by (cases "box_uint64 s (namedPluginsBox nm) 0") (auto simp: arc58_rekeyToNamedPlugin_def)
    with e Arc58_rekeyToNamedPlugin have "arc58_rekeyToPlugin env s p = Inr s'"
      by (simp add: arc58_rekeyToNamedPlugin_def)
    from rekeyToPlugin_grant(2)[OF this g] d Arc58_rekeyToNamedPlugin p show ?thesis by simp
  qed (use d in simp_all)
qed

text \<open>
  C5, as amended. A successful call of any method does one of four things to a stored
  grant. \<open>arc58_addPlugin\<close> and \<open>arc58_addNamedPlugin\<close> for the grant's own key store the
  grant anew, with \<open>lastCalled\<close> 0. A delegation that stamps the grant's key sets
  \<open>lastCalled\<close> to the current round, which is not below the value it replaces, and leaves
  the other fields. \<open>arc58_removePlugin\<close> of the key deletes the grant. Every other call
  leaves the grant as it is. So \<open>lastCalled\<close> never decreases except through a
  registration on the grant's own key.
\<close>

theorem lastCalled_after_call:
  assumes "dispatch env s c = Inr s'" and "plugins s k = Some g"
  shows "(\<forall>i. registration c = Some (k, i) \<longrightarrow> plugins s' k = Some i \<and> lastCalled i = 0) \<and>
         (delegation env s c = Some k \<longrightarrow>
            plugins s' k = Some (g\<lparr>lastCalled := globals_round env\<rparr>) \<and>
            lastCalled g \<le> globals_round env) \<and>
         (c = Arc58_removePlugin (application k) (allowedCaller k) \<longrightarrow> plugins s' k = None) \<and>
         (map_option fst (registration c) \<noteq> Some k \<and> delegation env s c \<noteq> Some k \<and>
          c \<noteq> Arc58_removePlugin (application k) (allowedCaller k) \<longrightarrow>
            plugins s' k = Some g) \<and>
         (map_option fst (registration c) \<noteq> Some k \<longrightarrow>
            (\<forall>g'. plugins s' k = Some g' \<longrightarrow> lastCalled g \<le> lastCalled g'))"
proof -
  note d = dispatch_grant[OF assms]
  have z: "lastCalled i = 0" if "registration c = Some (k, i)" for i
    using that by (cases c) auto
  have 1: "\<forall>i. registration c = Some (k, i) \<longrightarrow> plugins s' k = Some i \<and> lastCalled i = 0"
    using d z by auto
  have 2: "delegation env s c = Some k \<longrightarrow>
            plugins s' k = Some (g\<lparr>lastCalled := globals_round env\<rparr>) \<and>
            lastCalled g \<le> globals_round env"
  proof
    assume e: "delegation env s c = Some k"
    then have "registration c = None" by (cases c) auto
    with d e have "plugins s' k = Some (g\<lparr>lastCalled := globals_round env\<rparr>)" by simp
    with dispatch_delegation_le[OF assms e]
    show "plugins s' k = Some (g\<lparr>lastCalled := globals_round env\<rparr>) \<and>
            lastCalled g \<le> globals_round env" by simp
  qed
  have 3: "c = Arc58_removePlugin (application k) (allowedCaller k) \<longrightarrow> plugins s' k = None"
    using d by auto
  have 4: "map_option fst (registration c) \<noteq> Some k \<and> delegation env s c \<noteq> Some k \<and>
          c \<noteq> Arc58_removePlugin (application k) (allowedCaller k) \<longrightarrow>
            plugins s' k = Some g"
    using d by (auto split: option.splits)
  have 5: "map_option fst (registration c) \<noteq> Some k \<longrightarrow>
            (\<forall>g'. plugins s' k = Some g' \<longrightarrow> lastCalled g \<le> lastCalled g')"
  proof (intro impI allI)
    fix g'
    assume n: "map_option fst (registration c) \<noteq> Some k" and g': "plugins s' k = Some g'"
    show "lastCalled g \<le> lastCalled g'"
    proof (cases "delegation env s c = Some k")
      case True
      with 2 g' have "g' = g\<lparr>lastCalled := globals_round env\<rparr>"
        and "lastCalled g \<le> globals_round env" by simp_all
      then show ?thesis by simp
    next
      case False
      with d n g' have "g' = g" by (auto split: option.splits if_splits)
      then show ?thesis by simp
    qed
  qed
  from 1 2 3 4 5 show ?thesis by (intro conjI)
qed

lemma addPlugin_ok:
  assumes "isAdmin env s"
    and "boxes s (pluginsBox \<lparr>application = app', allowedCaller = caller\<rparr>) = None \<or>
         (\<exists>b. boxes s (pluginsBox \<lparr>application = app', allowedCaller = caller\<rparr>) = Some b \<and>
              length b = 25)"
  shows "arc58_addPlugin env s app' caller lastValid cool adminPriv False domain =
         Inr (s\<lparr>boxes := (boxes s)
                (pluginsBox \<lparr>application = app', allowedCaller = caller\<rparr> \<mapsto>
                   encodePluginInfo
                     \<lparr>lastValidRound = lastValid, cooldown = cool, lastCalled = 0,
                      adminPrivileges = (if adminPriv then 1 else 0)\<rparr>)\<rparr>)"
  using assms by (auto simp: arc58_addPlugin_def box_put_def)

lemma demo_addPlugin:
  "arc58_addPlugin (demoEnv 1 r []) demoState 7 zeroAddress 1000 0 False False [] =
     Inr (grantState 1000 0 0)"
  "arc58_addPlugin (demoEnv 1 r []) (delegatedState 0) 7 zeroAddress 1000 0 False False [] =
     Inr ((delegatedState 0)\<lparr>boxes :=
            [pluginsBox (wildcardKey 7) \<mapsto> encodePluginInfo (grant 1000 0 0 0)]\<rparr>)"
proof -
  have "arc58_addPlugin (demoEnv 1 r []) demoState 7 zeroAddress 1000 0 False False [] =
     Inr (demoState\<lparr>boxes := (boxes demoState)
                (pluginsBox \<lparr>application = 7, allowedCaller = zeroAddress\<rparr> \<mapsto>
                   encodePluginInfo
                     \<lparr>lastValidRound = 1000, cooldown = 0, lastCalled = 0,
                      adminPrivileges = (if False then 1 else 0)\<rparr>)\<rparr>)"
    by (rule addPlugin_ok) (simp_all add: demo_boxes)
  then show "arc58_addPlugin (demoEnv 1 r []) demoState 7 zeroAddress 1000 0 False False [] =
     Inr (grantState 1000 0 0)"
    by (simp add: grantState_def demo_boxes wildcardKey_def grant_def)
  have "arc58_addPlugin (demoEnv 1 r []) (delegatedState 0) 7 zeroAddress 1000 0 False False [] =
     Inr ((delegatedState 0)\<lparr>boxes := (boxes (delegatedState 0))
                (pluginsBox \<lparr>application = 7, allowedCaller = zeroAddress\<rparr> \<mapsto>
                   encodePluginInfo
                     \<lparr>lastValidRound = 1000, cooldown = 0, lastCalled = 0,
                      adminPrivileges = (if False then 1 else 0)\<rparr>)\<rparr>)"
    by (rule addPlugin_ok) (simp_all add: demo_boxes wildcardKey_def)
  then show "arc58_addPlugin (demoEnv 1 r []) (delegatedState 0) 7 zeroAddress 1000 0 False False [] =
     Inr ((delegatedState 0)\<lparr>boxes :=
            [pluginsBox (wildcardKey 7) \<mapsto> encodePluginInfo (grant 1000 0 0 0)]\<rparr>)"
    by (simp add: demo_boxes wildcardKey_def grant_def)
qed

lemma demo_dispatch [simp]: "dispatch (demoEnv a r after) s c = existingCall (demoEnv a r after) s c"
  by (simp add: dispatch_def)

text \<open>
  The claim as stated fails: the admin registers plugin 7, address 2 delegates to it at
  round 3, and the admin registers it again; \<open>lastCalled\<close> goes from 3 back to 0.
\<close>

theorem lastCalled_after_call_counterexample:
  "run demoState
     [(demoEnv 1 1 [], Arc58_addPlugin 7 zeroAddress 1000 0 False False []),
      (demoEnv 2 3 [demoVerify 2], Arc58_rekeyToPlugin 7)] = Inr (delegatedState 0) \<and>
   plugins (delegatedState 0) (wildcardKey 7) = Some (grant 1000 0 3 0) \<and>
   dispatch (demoEnv 1 5 []) (delegatedState 0)
     (Arc58_addPlugin 7 zeroAddress 1000 0 False False []) =
     Inr ((delegatedState 0)\<lparr>boxes :=
            [pluginsBox (wildcardKey 7) \<mapsto> encodePluginInfo (grant 1000 0 0 0)]\<rparr>) \<and>
   plugins ((delegatedState 0)\<lparr>boxes :=
            [pluginsBox (wildcardKey 7) \<mapsto> encodePluginInfo (grant 1000 0 0 0)]\<rparr>)
     (wildcardKey 7) = Some (grant 1000 0 0 0) \<and>
   lastCalled (grant 1000 0 0 0) < lastCalled (grant 1000 0 3 0)"
  by (simp add: demo_addPlugin demo_wildcard_delegation plugins_encoded)

text \<open>
  The delegation at round 3 stamps the wildcard grant of plugin 7, a change of admin leaves
  it alone, and a second registration stores it with \<open>lastCalled\<close> 0.
\<close>

theorem lastCalled_after_call_witness:
  "dispatch (demoEnv 2 3 [demoVerify 2]) (grantState 1000 0 0) (Arc58_rekeyToPlugin 7) =
     Inr (delegatedState 0) \<and>
   plugins (grantState 1000 0 0) (wildcardKey 7) = Some (grant 1000 0 0 0) \<and>
   delegation (demoEnv 2 3 [demoVerify 2]) (grantState 1000 0 0) (Arc58_rekeyToPlugin 7) =
     Some (wildcardKey 7) \<and>
   plugins (delegatedState 0) (wildcardKey 7) = Some (grant 1000 0 3 0) \<and>
   dispatch (demoEnv 1 5 []) (delegatedState 0) (Arc58_changeAdmin 9) =
     Inr ((delegatedState 0)\<lparr>admin := 9\<rparr>) \<and>
   plugins ((delegatedState 0)\<lparr>admin := 9\<rparr>) (wildcardKey 7) = Some (grant 1000 0 3 0) \<and>
   registration (Arc58_addPlugin 7 zeroAddress 1000 0 False False []) =
     Some (wildcardKey 7, grant 1000 0 0 0) \<and>
   plugins (persisted (delegatedState 0)
      (dispatch (demoEnv 1 5 []) (delegatedState 0)
         (Arc58_addPlugin 7 zeroAddress 1000 0 False False [])))
     (wildcardKey 7) = Some (grant 1000 0 0 0)"
proof -
  let ?e3 = "demoEnv 2 3 [demoVerify 2]"
  let ?e5 = "demoEnv 1 5 []"
  let ?add = "Arc58_addPlugin 7 zeroAddress 1000 0 False False []"
  let ?s3 = "(delegatedState 0)\<lparr>boxes :=
            [pluginsBox (wildcardKey 7) \<mapsto> encodePluginInfo (grant 1000 0 0 0)]\<rparr>"
  have d1: "dispatch ?e3 (grantState 1000 0 0) (Arc58_rekeyToPlugin 7) = Inr (delegatedState 0)"
    by (simp add: demo_wildcard_delegation)
  have k: "delegation ?e3 (grantState 1000 0 0) (Arc58_rekeyToPlugin 7) = Some (wildcardKey 7)"
    by (simp add: demo_stampedKey)
  have d2: "dispatch ?e5 (delegatedState 0) (Arc58_changeAdmin 9) =
     Inr ((delegatedState 0)\<lparr>admin := 9\<rparr>)"
    by (simp add: arc58_changeAdmin_def)
  have d3: "dispatch ?e5 (delegatedState 0) ?add = Inr ?s3"
    by (simp add: demo_addPlugin)
  have rg: "registration ?add = Some (wildcardKey 7, grant 1000 0 0 0)"
    by (simp add: wildcardKey_def grant_def)
  note t1 = lastCalled_after_call[OF d1 demo_plugins(1)[of 1000 0 0], THEN conjunct2, THEN conjunct1]
  note t2 = lastCalled_after_call[OF d2 demo_plugins(2)[of 0], THEN conjunct2, THEN conjunct2, THEN conjunct2,
      THEN conjunct1]
  note t3 = lastCalled_after_call[OF d3 demo_plugins(2)[of 0], THEN conjunct1, rule_format, OF rg]
  from t1 k have 1: "plugins (delegatedState 0) (wildcardKey 7) = Some (grant 1000 0 3 0)"
    by (simp add: grant_def)
  from t2 have 2: "plugins ((delegatedState 0)\<lparr>admin := 9\<rparr>) (wildcardKey 7) =
      Some (grant 1000 0 3 0)"
    by (simp add: wildcardKey_def)
  from t3 have 3: "plugins ?s3 (wildcardKey 7) = Some (grant 1000 0 0 0)" by simp
  from d1 k 1 d2 2 rg 3 d3 show ?thesis by (simp add: persisted_def)
qed

subsection \<open>Removing a named plugin\<close>

lemma removeNamedPlugin_registered:
  assumes "isAdmin env s" and "length name \<le> 63"
  shows "arc58_removeNamedPlugin env s name = Inl BOX_DOES_NOT_EXIST"
  using assms
  by (simp add: arc58_removeNamedPlugin_def assertAdminOrRevoker_def box_del_def box_get_def)

text \<open>
  C6. \<open>arc58_removeNamedPlugin\<close> never succeeds: whoever calls it, for whatever name, it
  fails and the state is unchanged. Where the claim has it delete the name and the grant
  together, the admin's call for the registered name \<open>x\<close> fails, because the key is read
  from the name's box after that box has been deleted.
\<close>

theorem removeNamedPlugin_always_fails:
  "(\<exists>e. arc58_removeNamedPlugin env s name = Inl e) \<and>
   persisted s (arc58_removeNamedPlugin env s name) = s \<and>
   isAdmin (demoEnv 1 5 []) namedState \<and>
   namedPlugins namedState nameX = Some (wildcardKey 7) \<and>
   plugins namedState (wildcardKey 7) = Some (grant 1000 0 0 0) \<and>
   arc58_removeNamedPlugin (demoEnv 1 5 []) namedState nameX = Inl BOX_DOES_NOT_EXIST"
proof -
  from removeNamedPlugin_Inl[of env s name] have
    a: "(\<exists>e. arc58_removeNamedPlugin env s name = Inl e) \<and>
        persisted s (arc58_removeNamedPlugin env s name) = s"
    by (auto simp: persisted_def)
  have b: "namedPlugins namedState nameX = Some (wildcardKey 7)"
    by (rule namedPlugins_encoded) (simp add: demo_boxes)
  have c: "arc58_removeNamedPlugin (demoEnv 1 5 []) namedState nameX = Inl BOX_DOES_NOT_EXIST"
    by (rule removeNamedPlugin_registered) (simp_all add: nameX_def)
  from a b c show ?thesis by simp
qed

subsection \<open>Removing a plugin\<close>

lemma alias_box: "pluginsBox aliasKey = namedPluginsBox aliasName"
  unfolding pluginsBox_def namedPluginsBox_def aliasKey_def aliasName_def encodePluginsKey_def
    itob_def addressBytes_def
  by code_simp

lemma removePlugin_ok:
  assumes "isAdmin env s"
  shows "arc58_removePlugin env s app' caller =
         Inr (s\<lparr>boxes := (boxes s)(pluginsBox \<lparr>application = app', allowedCaller = caller\<rparr> := None)\<rparr>)"
  using assms by (simp add: arc58_removePlugin_def assertAdminOrRevoker_def box_del_def)

text \<open>
  C9. \<open>arc58_removePlugin\<close> can delete a named plugin. The boxes of \<open>plugins\<close> have no
  prefix, so the box of the plugin key made of the bytes \<open>n\<close> and 39 times \<open>a\<close> is the box
  of the name of 39 bytes \<open>a\<close>: after the admin has registered plugin 7 under that name,
  the admin's \<open>arc58_removePlugin\<close> for that key deletes the name's box, where the claim
  has every named plugin unchanged.
\<close>

theorem removePlugin_deletes_named_plugin:
  "arc58_addNamedPlugin (demoEnv 1 5 []) demoState aliasName 7 zeroAddress 1000 0 False =
     Inr aliasState \<and>
   namedPlugins aliasState aliasName = Some (wildcardKey 7) \<and>
   arc58_removePlugin (demoEnv 1 6 []) aliasState (application aliasKey) (allowedCaller aliasKey) =
     Inr (grantState 1000 0 0) \<and>
   namedPlugins (grantState 1000 0 0) aliasName = None \<and>
   namedPluginsExists aliasState aliasName \<and>
   \<not> namedPluginsExists (grantState 1000 0 0) aliasName"
proof -
  have l: "length aliasName = 39" by (simp add: aliasName_def)
  have d: "pluginsBox (wildcardKey 7) \<noteq> namedPluginsBox aliasName"
  proof
    assume "pluginsBox (wildcardKey 7) = namedPluginsBox aliasName"
    then have "pluginsBox (wildcardKey 7) = pluginsBox aliasKey" by (simp add: alias_box)
    then have "application (wildcardKey 7) = application aliasKey" by simp
    then show False by (simp add: wildcardKey_def aliasKey_def)
  qed
  then have d': "namedPluginsBox aliasName \<noteq> pluginsBox (wildcardKey 7)" by (rule not_sym)
  have "arc58_addNamedPlugin (demoEnv 1 5 []) demoState aliasName 7 zeroAddress 1000 0 False =
    Inr (demoState\<lparr>boxes := (boxes demoState)
                (namedPluginsBox aliasName \<mapsto>
                   encodePluginsKey \<lparr>application = 7, allowedCaller = zeroAddress\<rparr>,
                 pluginsBox \<lparr>application = 7, allowedCaller = zeroAddress\<rparr> \<mapsto>
                   encodePluginInfo
                     \<lparr>lastValidRound = 1000, cooldown = 0, lastCalled = 0,
                      adminPrivileges = (if False then 1 else 0)\<rparr>)\<rparr>)"
  proof (rule addNamedPlugin_ok)
    show "pluginsBox \<lparr>application = 7, allowedCaller = zeroAddress\<rparr> \<noteq> namedPluginsBox aliasName"
      using d by (simp add: wildcardKey_def)
  qed (simp_all add: l demo_boxes)
  then have 1: "arc58_addNamedPlugin (demoEnv 1 5 []) demoState aliasName 7 zeroAddress 1000 0 False =
     Inr aliasState"
    by (simp add: aliasState_def demo_boxes wildcardKey_def grant_def)
  have 2: "namedPlugins aliasState aliasName = Some (wildcardKey 7)"
    by (rule namedPlugins_encoded) (simp add: aliasState_def d')
  have a: "isAdmin (demoEnv 1 6 []) aliasState"
    by (simp add: isAdmin_def aliasState_def)
  have k: "\<lparr>application = application aliasKey, allowedCaller = allowedCaller aliasKey\<rparr> = aliasKey"
    by simp
  have r: "arc58_removePlugin (demoEnv 1 6 []) aliasState (application aliasKey)
      (allowedCaller aliasKey) =
      Inr (aliasState\<lparr>boxes := (boxes aliasState)(pluginsBox aliasKey := None)\<rparr>)"
    using removePlugin_ok[OF a, of "application aliasKey" "allowedCaller aliasKey"]
    by (simp only: k)
  have "aliasState\<lparr>boxes := (boxes aliasState)(namedPluginsBox aliasName := None)\<rparr> =
      grantState 1000 0 0"
    using d' by (auto simp: aliasState_def grantState_def)
  with r have 3: "arc58_removePlugin (demoEnv 1 6 []) aliasState (application aliasKey)
      (allowedCaller aliasKey) = Inr (grantState 1000 0 0)"
    by (simp only: alias_box)
  have 4: "boxes (grantState 1000 0 0) (namedPluginsBox aliasName) = None"
    using d' by (simp add: grantState_def)
  from 4 have 5: "namedPlugins (grantState 1000 0 0) aliasName = None"
    "\<not> namedPluginsExists (grantState 1000 0 0) aliasName"
    by (simp_all add: namedPlugins_def namedPluginsExists_def)
  have 6: "namedPluginsExists aliasState aliasName"
    by (simp add: namedPluginsExists_def l aliasState_def d')
  from 1 2 3 5 6 show ?thesis by simp
qed

end
